theory Spec2Isabelle
  imports Main "HOL-Library.Sublist"
begin

section \<open>Data model of \<open>src/index.ts\<close>\<close>

text \<open>
  Strings are byte lists: a JavaScript string is modelled by its UTF-8 encoding, which is
  what \<open>writeFileSync\<close> puts on disk. A thrown JavaScript \<open>Error\<close> is a value carrying its
  message; a function that can throw returns \<open>error + 'a\<close> with \<open>Inl\<close> for the throw.
\<close>

datatype error = JsError (message: string)

datatype OutputFormat = XML | Markdown

text \<open>The interface \<open>Config\<close> (lines 25-30). Its fields \<open>include\<close> and \<open>exclude\<close> carry the
  suffix \<open>_patterns\<close> here; \<open>maxFileSize\<close> is an integer number of bytes.\<close>

record Config =
  include_patterns :: "string list"
  exclude_patterns :: "string list"
  maxFileSize :: int
  outputFormat :: OutputFormat

text \<open>The constant \<open>DEFAULT_CONFIG\<close> (lines 32-37).\<close>

definition DEFAULT_CONFIG :: Config where
  "DEFAULT_CONFIG =
     \<lparr>include_patterns = [''**/*''],
      exclude_patterns = [''node_modules/**'', ''.git/**'', ''package-lock.json'', ''yarn.lock''],
      maxFileSize = 100 * 1024,
      outputFormat = Markdown\<rparr>"

text \<open>The result of \<open>fs.statSync\<close>, as far as the program reads it.\<close>

record Stats =
  isDirectory :: bool
  size_bytes :: nat

text \<open>The options object passed to \<open>glob\<close> (lines 87-92).\<close>

record GlobOptions =
  glob_cwd :: string
  glob_nodir :: bool
  glob_dot :: bool
  glob_ignore :: "string list"

text \<open>
  Everything the program obtains from Node and from its packages is a field of the
  environment: the working directory, the \<open>path\<close> module, the \<open>fs\<close> module, the \<open>glob\<close> and
  \<open>ignore\<close> packages, the built-in objects of the JavaScript runtime and the answer to
  the interactive prompt. A call that can throw returns a sum, or the error as an option
  when it returns nothing. The fields are unconstrained, so glob may list a path whose
  \<open>statSync\<close> throws: that is a file removed after the listing, or a dangling symbolic
  link. The two fields on the built-in objects are explained with \<open>formatIncludedFiles\<close>.
\<close>

record env =
  cwd :: string
  path_sep :: char
  path_join :: "string \<Rightarrow> string \<Rightarrow> string"
  path_relative :: "string \<Rightarrow> string \<Rightarrow> string"
  existsSync :: "string \<Rightarrow> bool"
  readFileSync :: "string \<Rightarrow> error + string"
  readdirSync :: "string \<Rightarrow> error + string list"
  statSync :: "string \<Rightarrow> error + Stats"
  writeFileSync :: "string \<Rightarrow> string \<Rightarrow> error option"
  glob :: "string list \<Rightarrow> GlobOptions \<Rightarrow> error + string list"
  ignore_package :: "string list \<Rightarrow> string \<Rightarrow> error + bool"
  inherited_property :: "string list list \<Rightarrow> string \<Rightarrow> bool"
  builtin_walk :: "string list list \<Rightarrow> string list \<Rightarrow> error option"
  promptUser :: "string \<Rightarrow> bool"

text \<open>
  An \<open>Ignore\<close> object of the \<open>ignore\<close> package is the list of what has been passed to its
  \<open>add\<close>, in order; \<open>ig.ignores(p)\<close> is the package's verdict on that list, or the error
  that the package throws: it rejects a path that is not relative to the working directory
  and a path made of dots only.
\<close>

datatype Ignore = Ignore (added: "string list")

definition ignores :: "env \<Rightarrow> Ignore \<Rightarrow> string \<Rightarrow> error + bool" where
  "ignores e ig p = ignore_package e (added ig) p"

subsection \<open>\<open>createIgnore\<close> (lines 53-59)\<close>

definition createIgnore :: "env \<Rightarrow> Config \<Rightarrow> string \<Rightarrow> error + Ignore" where
  "createIgnore e config outputFile =
     (let ig = Ignore (exclude_patterns config @ [outputFile])
      in if existsSync e ''.gitignore''
         then (case readFileSync e ''.gitignore'' of
                 Inl err \<Rightarrow> Inl err
               | Inr content \<Rightarrow> Inr (Ignore (added ig @ [content])))
         else Inr ig)"

subsection \<open>\<open>getIncludedFiles\<close> (lines 85-101)\<close>

text \<open>\<open>Array.prototype.filter\<close> with a callback that can throw: the callback runs on the
  elements in order and the first throw ends the whole call.\<close>

fun filter_throwing :: "('a \<Rightarrow> error + bool) \<Rightarrow> 'a list \<Rightarrow> error + 'a list" where
  "filter_throwing p [] = Inr []"
| "filter_throwing p (x # xs) =
     (case p x of
        Inl err \<Rightarrow> Inl err
      | Inr keep \<Rightarrow>
          (case filter_throwing p xs of
             Inl err \<Rightarrow> Inl err
           | Inr ys \<Rightarrow> Inr (if keep then x # ys else ys)))"

text \<open>The callback of lines 94-99: \<open>statSync\<close> first, then \<open>ig.ignores\<close>, then the size.\<close>

definition isIncluded :: "env \<Rightarrow> string \<Rightarrow> Config \<Rightarrow> Ignore \<Rightarrow> string \<Rightarrow> error + bool" where
  "isIncluded e dir config ig file =
     (let fullPath = path_join e dir file
      in case statSync e fullPath of
           Inl err \<Rightarrow> Inl err
         | Inr stats \<Rightarrow>
             (case ignores e ig file of
                Inl err \<Rightarrow> Inl err
              | Inr flagged \<Rightarrow> Inr (\<not> flagged \<and> int (size_bytes stats) \<le> maxFileSize config)))"

definition globPattern :: "Config \<Rightarrow> string list" where
  "globPattern config =
     (if length (include_patterns config) > 0 then include_patterns config else [''**/*''])"

definition globOptions :: "string \<Rightarrow> Config \<Rightarrow> GlobOptions" where
  "globOptions dir config =
     \<lparr>glob_cwd = dir, glob_nodir = True, glob_dot = True,
      glob_ignore = [''**/node_modules/**'', ''**/.git/**''] @ exclude_patterns config\<rparr>"

definition getIncludedFiles :: "env \<Rightarrow> string \<Rightarrow> Config \<Rightarrow> Ignore \<Rightarrow> error + string list" where
  "getIncludedFiles e dir config ig =
     (case glob e (globPattern config) (globOptions dir config) of
        Inl err \<Rightarrow> Inl err
      | Inr allFiles \<Rightarrow> filter_throwing (isIncluded e dir config ig) allFiles)"

subsection \<open>Tree drawing (lines 68, 75, 77 and 128, 131)\<close>

text \<open>
  The connectors and the continuation prefixes, as UTF-8 bytes: U+2514 U+2500 U+2500 and a
  space for the last sibling, U+251C U+2500 U+2500 and a space otherwise; four spaces below
  a last sibling, U+2502 and three spaces otherwise.
\<close>

definition connector :: "bool \<Rightarrow> string" where
  "connector isLast =
     (if isLast
      then [CHR 0xE2, CHR 0x94, CHR 0x94, CHR 0xE2, CHR 0x94, CHR 0x80, CHR 0xE2, CHR 0x94, CHR 0x80,
            CHR '' '']
      else [CHR 0xE2, CHR 0x94, CHR 0x9C, CHR 0xE2, CHR 0x94, CHR 0x80, CHR 0xE2, CHR 0x94, CHR 0x80,
            CHR '' ''])"

definition continuation :: "bool \<Rightarrow> string" where
  "continuation isLast =
     (if isLast then ''    '' else [CHR 0xE2, CHR 0x94, CHR 0x82, CHR '' '', CHR '' '', CHR '' ''])"

definition newline :: string where
  "newline = [CHR 0x0A]"

subsection \<open>\<open>generateFullFileTree\<close> (lines 61-83)\<close>

text \<open>
  The body of the \<open>forEach\<close> callback for one entry: what it appends to \<open>tree\<close>. The
  call \<open>ig.ignores\<close> of line 69 comes before the line of the entry is appended and before
  \<open>statSync\<close>. The recursive call is the parameter \<open>recurse\<close>, applied to the entry's path
  and the new prefix. \<open>None\<close> is a recursion that did not return.
\<close>

definition tree_entry ::
  "(string \<Rightarrow> string \<Rightarrow> (error + string) option) \<Rightarrow> env \<Rightarrow> Ignore \<Rightarrow> string \<Rightarrow> string \<Rightarrow> bool \<Rightarrow> string
     \<Rightarrow> (error + string) option" where
  "tree_entry recurse e ig dir pre isLast file =
     (let filePath = path_join e dir file;
          relativePath = path_relative e (cwd e) filePath
      in case ignores e ig relativePath of
           Inl err \<Rightarrow> Some (Inl err)
         | Inr isIgnored \<Rightarrow>
             (let line = pre @ connector isLast @ file @ newline
              in case statSync e filePath of
                   Inl err \<Rightarrow> Some (Inl err)
                 | Inr stats \<Rightarrow>
                     if isDirectory stats then
                       if file = ''node_modules'' \<or> file = ''.git'' then
                         Some (Inr (line @ pre @ continuation isLast @ connector True @ ''...''
                                    @ newline))
                       else if \<not> isIgnored then
                         (case recurse filePath (pre @ continuation isLast) of
                            None \<Rightarrow> None
                          | Some (Inl err) \<Rightarrow> Some (Inl err)
                          | Some (Inr sub) \<Rightarrow> Some (Inr (line @ sub)))
                       else Some (Inr line)
                     else Some (Inr line)))"

text \<open>\<open>files.forEach\<close>: the entries in listing order, \<open>n\<close> the length of the listing and
  \<open>i\<close> the index of the first remaining entry.\<close>

fun tree_entries ::
  "(string \<Rightarrow> string \<Rightarrow> (error + string) option) \<Rightarrow> env \<Rightarrow> Ignore \<Rightarrow> string \<Rightarrow> string \<Rightarrow> nat \<Rightarrow> nat
     \<Rightarrow> string list \<Rightarrow> (error + string) option" where
  "tree_entries recurse e ig dir pre n i [] = Some (Inr [])"
| "tree_entries recurse e ig dir pre n i (file # rest) =
     (case tree_entry recurse e ig dir pre (i = n - 1) file of
        None \<Rightarrow> None
      | Some (Inl err) \<Rightarrow> Some (Inl err)
      | Some (Inr s) \<Rightarrow>
          (case tree_entries recurse e ig dir pre n (Suc i) rest of
             None \<Rightarrow> None
           | Some (Inl err) \<Rightarrow> Some (Inl err)
           | Some (Inr t) \<Rightarrow> Some (Inr (s @ t))))"

text \<open>The recursion depth is bounded by the first argument; a directory structure deeper
  than that (a cycle of symbolic links) gives \<open>None\<close>.\<close>

primrec generateFullFileTree ::
  "nat \<Rightarrow> env \<Rightarrow> Ignore \<Rightarrow> string \<Rightarrow> string \<Rightarrow> (error + string) option" where
  "generateFullFileTree 0 e ig dir pre = None"
| "generateFullFileTree (Suc k) e ig dir pre =
     (case readdirSync e dir of
        Inl err \<Rightarrow> Some (Inl err)
      | Inr files \<Rightarrow>
          tree_entries (generateFullFileTree k e ig) e ig dir pre (length files) 0 files)"

subsection \<open>The logger, the writes and the built-in objects\<close>

text \<open>
  What a run leaves behind, as far as the program decides it: the entries handed to the
  logger, the calls of \<open>fs.writeFileSync\<close> with their arguments (what the file holds after
  a call, returned or thrown, is the file system's affair), and the walks that
  \<open>formatIncludedFiles\<close> has made through built-in objects, in order.
\<close>

datatype log_entry = LogInfo string | LogError string error

record world =
  logged :: "log_entry list"
  write_calls :: "(string \<times> string) list"
  walks :: "string list list"

definition log_info :: "string \<Rightarrow> world \<Rightarrow> world" where
  "log_info msg w = w\<lparr>logged := logged w @ [LogInfo msg]\<rparr>"

definition log_error :: "string \<Rightarrow> error \<Rightarrow> world \<Rightarrow> world" where
  "log_error msg err w = w\<lparr>logged := logged w @ [LogError msg err]\<rparr>"

subsection \<open>\<open>formatIncludedFiles\<close> (lines 103-139)\<close>

text \<open>\<open>String.prototype.split\<close> with a one-character separator.\<close>

fun split_on :: "char \<Rightarrow> string \<Rightarrow> string list" where
  "split_on c [] = [[]]"
| "split_on c (x # xs) =
     (if x = c then [] # split_on c xs
      else (case split_on c xs of
              [] \<Rightarrow> [[x]]
            | y # ys \<Rightarrow> (x # y) # ys))"

text \<open>
  The values stored in \<open>fileTree\<close>: \<open>null\<close> or a nested object. An object is the list of
  its own properties in the order in which \<open>Object.entries\<close> enumerates them: the keys that
  are array indices first, in ascending numeric order, then the other keys in the order
  of their creation.
\<close>

datatype tree_value = Null | Object "(string \<times> tree_value) list"

definition is_digit :: "char \<Rightarrow> bool" where
  "is_digit c = (48 \<le> (of_char c :: nat) \<and> (of_char c :: nat) \<le> 57)"

definition index_value :: "string \<Rightarrow> nat" where
  "index_value s = foldl (\<lambda>n c. 10 * n + (of_char c - 48)) 0 s"

text \<open>An array index is the canonical decimal form of an integer from 0 to \<open>2^32 - 2\<close>.\<close>

definition is_array_index :: "string \<Rightarrow> bool" where
  "is_array_index s =
     (s \<noteq> [] \<and> list_all is_digit s \<and> (s = ''0'' \<or> hd s \<noteq> CHR ''0'')
      \<and> index_value s \<le> 4294967294)"

fun insert_index :: "string \<Rightarrow> tree_value \<Rightarrow> (string \<times> tree_value) list \<Rightarrow> (string \<times> tree_value) list"
  where
  "insert_index k v [] = [(k, v)]"
| "insert_index k v ((k', v') # rest) =
     (if is_array_index k' \<and> index_value k' < index_value k
      then (k', v') # insert_index k v rest
      else (k, v) # (k', v') # rest)"

text \<open>The assignment \<open>node[k] = v\<close>: an existing property keeps its place, a new one is
  created at the place the enumeration order gives it.\<close>

definition set_property ::
  "string \<Rightarrow> tree_value \<Rightarrow> (string \<times> tree_value) list \<Rightarrow> (string \<times> tree_value) list" where
  "set_property k v node =
     (if k \<in> set (map fst node) then map (\<lambda>(k', v'). if k' = k then (k', v) else (k', v')) node
      else if is_array_index k then insert_index k v node
      else node @ [(k, v)])"

text \<open>
  The objects of the tree are created by \<open>{}\<close>, so the read \<open>node[k]\<close> gives an own
  property, else what the object inherits from \<open>Object.prototype\<close>. What it inherits
  belongs to the runtime and changes when the program assigns through an inherited object:
  \<open>inherited_property e ws k\<close> says whether, after the walks \<open>ws\<close> through built-in objects,
  a plain object inherits a property \<open>k\<close> with a truthy value. The read is \<open>Inherited\<close> then;
  an inherited value that is falsy passes the test \<open>!currentNode[part]\<close> like \<open>undefined\<close>.
\<close>

datatype property_read = Undefined | Own tree_value | Inherited

definition get_property ::
  "(string \<Rightarrow> bool) \<Rightarrow> (string \<times> tree_value) list \<Rightarrow> string \<Rightarrow> property_read" where
  "get_property inherited node k =
     (case map_of node k of
        Some v \<Rightarrow> Own v
      | None \<Rightarrow> if inherited k then Inherited else Undefined)"

text \<open>
  The inner \<open>forEach\<close> of lines 109-120 on the parts that remain, \<open>node\<close> being
  \<open>currentNode\<close>. The condition \<open>!currentNode[part]\<close> holds for \<open>undefined\<close> and for
  \<open>null\<close>. Objects of the tree are never shared, so the update through the reference
  \<open>currentNode\<close> is the update of that property in place. The result is \<open>currentNode\<close>
  after the loop and, when line 118 has made \<open>currentNode\<close> an inherited value, the parts
  from that one on: from there the loop reads and writes a built-in object, and the tree
  keeps the properties it has.
\<close>

fun insert_parts ::
  "(string \<Rightarrow> bool) \<Rightarrow> string list \<Rightarrow> (string \<times> tree_value) list
     \<Rightarrow> (string \<times> tree_value) list \<times> string list option" where
  "insert_parts inherited [] node = (node, None)"
| "insert_parts inherited [part] node =
     (case get_property inherited node part of
        Undefined \<Rightarrow> (set_property part Null node, None)
      | Own Null \<Rightarrow> (set_property part Null node, None)
      | Own (Object child) \<Rightarrow> (node, None)
      | Inherited \<Rightarrow> (node, None))"
| "insert_parts inherited (part # rest) node =
     (case get_property inherited node part of
        Undefined \<Rightarrow>
          (case insert_parts inherited rest [] of
             (child', outside) \<Rightarrow> (set_property part (Object child') node, outside))
      | Own Null \<Rightarrow>
          (case insert_parts inherited rest [] of
             (child', outside) \<Rightarrow> (set_property part (Object child') node, outside))
      | Own (Object child) \<Rightarrow>
          (case insert_parts inherited rest child of
             (child', outside) \<Rightarrow> (set_property part (Object child') node, outside))
      | Inherited \<Rightarrow> (node, Some (part # rest)))"

text \<open>
  The outer \<open>forEach\<close> of lines 106-121 on the files that remain. A walk through a
  built-in object is recorded; \<open>builtin_walk e ws walk\<close> is the error it throws after the
  walks \<open>ws\<close>, if any (an assignment to a property of a primitive value, or to the
  prototype of \<open>Object.prototype\<close>, throws a \<open>TypeError\<close> in a module).
\<close>

fun insert_files ::
  "env \<Rightarrow> string list \<Rightarrow> (string \<times> tree_value) list \<Rightarrow> world
     \<Rightarrow> (error + (string \<times> tree_value) list) \<times> world" where
  "insert_files e [] fileTree w = (Inr fileTree, w)"
| "insert_files e (filePath # rest) fileTree w =
     (case insert_parts (inherited_property e (walks w)) (split_on (path_sep e) filePath) fileTree of
        (fileTree', None) \<Rightarrow> insert_files e rest fileTree' w
      | (fileTree', Some walk) \<Rightarrow>
          (case builtin_walk e (walks w) walk of
             Some err \<Rightarrow> (Inl err, w\<lparr>walks := walks w @ [walk]\<rparr>)
           | None \<Rightarrow> insert_files e rest fileTree' (w\<lparr>walks := walks w @ [walk]\<rparr>)))"

text \<open>\<open>renderTree\<close> (lines 123-136); \<open>render_entries\<close> is its \<open>forEach\<close> over
  \<open>Object.entries(node)\<close>, \<open>n\<close> the number of entries and \<open>i\<close> the index of the first
  remaining one.\<close>

fun render_entries :: "nat \<Rightarrow> nat \<Rightarrow> (string \<times> tree_value) list \<Rightarrow> string \<Rightarrow> string" where
  "render_entries n i [] pre = []"
| "render_entries n i ((key, Null) # rest) pre =
     pre @ connector (i = n - 1) @ key @ newline @ render_entries n (Suc i) rest pre"
| "render_entries n i ((key, Object child) # rest) pre =
     pre @ connector (i = n - 1) @ key @ newline
       @ render_entries (length child) 0 child (pre @ continuation (i = n - 1))
       @ render_entries n (Suc i) rest pre"

definition renderTree :: "(string \<times> tree_value) list \<Rightarrow> string \<Rightarrow> string" where
  "renderTree node pre = render_entries (length node) 0 node pre"

definition formatIncludedFiles :: "env \<Rightarrow> string list \<Rightarrow> world \<Rightarrow> (error + string) \<times> world" where
  "formatIncludedFiles e files w =
     (case insert_files e files [] w of
        (Inl err, w') \<Rightarrow> (Inl err, w')
      | (Inr fileTree, w') \<Rightarrow> (Inr (renderTree fileTree []), w'))"

subsection \<open>\<open>getFileContent\<close> (lines 141-154)\<close>

text \<open>The three templates of lines 146, 148 and 152.\<close>

definition xml_block :: "string \<Rightarrow> string \<Rightarrow> string" where
  "xml_block relativePath content =
     ''<file path=\"'' @ relativePath @ ''\">'' @ newline @ ''<![CDATA['' @ newline
       @ content @ newline @ '']]>'' @ newline @ ''</file>'' @ newline @ newline"

definition markdown_block :: "string \<Rightarrow> string \<Rightarrow> string" where
  "markdown_block relativePath content =
     ''```'' @ relativePath @ newline @ content @ newline @ ''```'' @ newline @ newline"

definition read_error_line :: "string \<Rightarrow> error \<Rightarrow> string" where
  "read_error_line filePath err =
     ''Error reading file '' @ filePath @ '': '' @ message err @ newline @ newline"

text \<open>
  The \<open>try\<close> block, then the function with its \<open>catch\<close>. The result is a sum like that of
  every function that could throw; the \<open>catch\<close> clause turns each throw into a returned
  string. \<open>content\<close> is the text that \<open>readFileSync\<close> returns for the encoding \<open>utf8\<close>.
\<close>

definition file_block :: "env \<Rightarrow> string \<Rightarrow> Config \<Rightarrow> error + string" where
  "file_block e filePath config =
     (case readFileSync e filePath of
        Inl err \<Rightarrow> Inl err
      | Inr content \<Rightarrow>
          (let relativePath = path_relative e (cwd e) filePath
           in if outputFormat config = XML
              then Inr (xml_block relativePath content)
              else Inr (markdown_block relativePath content)))"

definition getFileContent :: "env \<Rightarrow> string \<Rightarrow> Config \<Rightarrow> world \<Rightarrow> (error + string) \<times> world" where
  "getFileContent e filePath config w =
     (case file_block e filePath config of
        Inr block \<Rightarrow> (Inr block, w)
      | Inl err \<Rightarrow>
          (Inr (read_error_line filePath err),
           log_error (''Error reading file '' @ filePath @ '':'') err w))"

subsection \<open>\<open>generateCodeContext\<close> (lines 156-169)\<close>

text \<open>The loop of lines 164-166 on the files that remain, \<open>context\<close> being the text so
  far.\<close>

fun append_contents ::
  "env \<Rightarrow> string \<Rightarrow> Config \<Rightarrow> string list \<Rightarrow> string \<Rightarrow> world \<Rightarrow> (error + string) \<times> world" where
  "append_contents e dir config [] context w = (Inr context, w)"
| "append_contents e dir config (filePath # rest) context w =
     (case getFileContent e (path_join e dir filePath) config w of
        (Inl err, w') \<Rightarrow> (Inl err, w')
      | (Inr block, w') \<Rightarrow> append_contents e dir config rest (context @ block) w')"

definition generateCodeContext ::
  "nat \<Rightarrow> env \<Rightarrow> string \<Rightarrow> Config \<Rightarrow> Ignore \<Rightarrow> world \<Rightarrow> (error + string) option \<times> world" where
  "generateCodeContext fuel e dir config ig w =
     (case generateFullFileTree fuel e ig dir [] of
        None \<Rightarrow> (None, w)
      | Some (Inl err) \<Rightarrow> (Some (Inl err), w)
      | Some (Inr tree) \<Rightarrow>
          (case getIncludedFiles e dir config ig of
             Inl err \<Rightarrow> (Some (Inl err), w)
           | Inr includedFiles \<Rightarrow>
               (case formatIncludedFiles e includedFiles w of
                  (Inl err, w') \<Rightarrow> (Some (Inl err), w')
                | (Inr included, w') \<Rightarrow>
                    (case append_contents e dir config includedFiles
                            (''Full File Tree:'' @ newline @ newline @ tree
                             @ newline @ ''Included Files:'' @ newline @ newline
                             @ included
                             @ newline @ ''Code Context:'' @ newline @ newline) w' of
                       (r, w'') \<Rightarrow> (Some r, w'')))))"

subsection \<open>\<open>writeToFile\<close> (lines 171-178)\<close>

text \<open>The call of \<open>fs.writeFileSync\<close> is made in both branches; the \<open>catch\<close> clause logs
  the error and the function returns.\<close>

definition writeToFile :: "env \<Rightarrow> string \<Rightarrow> string \<Rightarrow> world \<Rightarrow> (error + unit) \<times> world" where
  "writeToFile e content outputPath w =
     (let w' = w\<lparr>write_calls := write_calls w @ [(outputPath, content)]\<rparr>
      in case writeFileSync e outputPath content of
           None \<Rightarrow> (Inr (), log_info (''Content written to '' @ outputPath) w')
         | Some err \<Rightarrow> (Inr (), log_error (''Error writing to file '' @ outputPath @ '':'') err w'))"

subsection \<open>\<open>main\<close> (lines 194-243)\<close>

text \<open>
  Lines 195-220 (the command line, \<open>loadConfig\<close> and the overrides) produce the
  configuration and the output path; \<open>main\<close> below is lines 222-237 on these two. \<open>run\<close>
  is the call of line 240 with its \<open>catch\<close>: the process ends with exit code 1 after a
  throw, and normally when \<open>main\<close> returns.
\<close>

definition main ::
  "nat \<Rightarrow> env \<Rightarrow> Config \<Rightarrow> string \<Rightarrow> world \<Rightarrow> (error + unit) option \<times> world" where
  "main fuel e config output w =
     (case createIgnore e config output of
        Inl err \<Rightarrow> (Some (Inl err), w)
      | Inr ig \<Rightarrow>
          (case getIncludedFiles e (cwd e) config ig of
             Inl err \<Rightarrow> (Some (Inl err), w)
           | Inr includedFiles \<Rightarrow>
               (case formatIncludedFiles e includedFiles (log_info ''Files to be included:'' w) of
                  (Inl err, w1) \<Rightarrow> (Some (Inl err), w1)
                | (Inr included, w1) \<Rightarrow>
                    (let w2 = log_info (newline @ included) w1;
                         proceed = promptUser e
                           ''Do you want to proceed with the context generation? (y/n): ''
                     in if proceed then
                          (let w3 = log_info ''Generating code context...'' w2
                           in case generateCodeContext fuel e (cwd e) config ig w3 of
                                (None, w4) \<Rightarrow> (None, w4)
                              | (Some (Inl err), w4) \<Rightarrow> (Some (Inl err), w4)
                              | (Some (Inr codeContext), w4) \<Rightarrow>
                                  (case writeToFile e codeContext output w4 of
                                     (Inl err, w5) \<Rightarrow> (Some (Inl err), w5)
                                   | (Inr u, w5) \<Rightarrow>
                                       (Some (Inr ()),
                                        log_info
                                          ''Content generated. You can find it in the output file.''
                                          w5)))
                        else (Some (Inr ()), log_info ''Context generation aborted.'' w2)))))"

datatype exit = Completed | Exit nat

definition run :: "nat \<Rightarrow> env \<Rightarrow> Config \<Rightarrow> string \<Rightarrow> world \<Rightarrow> exit option \<times> world" where
  "run fuel e config output w =
     (case main fuel e config output w of
        (None, w') \<Rightarrow> (None, w')
      | (Some (Inl err), w') \<Rightarrow> (Some (Exit 1), log_error ''An error occurred:'' err w')
      | (Some (Inr u), w') \<Rightarrow> (Some Completed, w'))"

section \<open>The packages and the specification\<close>

text \<open>
  The \<open>glob\<close> package is not part of the repository. Its contract, as far as the
  selection relies on it: every path it returns matches at least one of the patterns it
  was given, for the package's own matching relation \<open>matches\<close>.
\<close>

definition glob_sound :: "(string \<Rightarrow> string \<Rightarrow> bool) \<Rightarrow> env \<Rightarrow> bool" where
  "glob_sound matches e =
     (\<forall>pats opts files. glob e pats opts = Inr files \<longrightarrow>
        (\<forall>f \<in> set files. \<exists>p \<in> set pats. matches p f))"

text \<open>
  Modelled from the spec: the rule precedence of the \<open>ignore\<close> package, which is not part
  of the repository. Section 4.1: the patterns are combined into one ruleset evaluated
  with the gitignore precedence, where a later pattern can re-include, by a leading
  \<open>!\<close>, a path that an earlier one excludes. \<open>add\<close> takes a text line by line. The match
  of one pattern against a path is the parameter \<open>pmatch\<close>.
\<close>

definition gitignore_rule :: "(string \<Rightarrow> string \<Rightarrow> bool) \<Rightarrow> string \<Rightarrow> bool \<Rightarrow> string \<Rightarrow> bool" where
  "gitignore_rule pmatch p ignored rule =
     (if rule \<noteq> [] \<and> hd rule = CHR ''!''
      then (if pmatch (tl rule) p then False else ignored)
      else (if pmatch rule p then True else ignored))"

definition gitignore_verdict :: "(string \<Rightarrow> string \<Rightarrow> bool) \<Rightarrow> string list \<Rightarrow> string \<Rightarrow> bool" where
  "gitignore_verdict pmatch rules p =
     foldl (gitignore_rule pmatch p) False (concat (map (split_on (CHR 0x0A)) rules))"

text \<open>What one selected file contributes to the document: its block in the configured
  format when it can be read, and the line of the \<open>catch\<close> clause when it cannot.\<close>

definition block_or_placeholder :: "env \<Rightarrow> Config \<Rightarrow> string \<Rightarrow> string" where
  "block_or_placeholder e config filePath =
     (case readFileSync e filePath of
        Inl err \<Rightarrow> read_error_line filePath err
      | Inr content \<Rightarrow>
          if outputFormat config = XML
          then xml_block (path_relative e (cwd e) filePath) content
          else markdown_block (path_relative e (cwd e) filePath) content)"

subsection \<open>Reading a block back\<close>

text \<open>
  A CDATA section ends at the first \<open>]]>\<close> after its start, and a fenced code block at the
  first line that is a closing fence. \<open>split_at_first pat s\<close> is the text of \<open>s\<close> before
  the first occurrence of \<open>pat\<close> and the text after it; the lines of a block are its
  \<open>split_on\<close> at the line feed.
\<close>

fun split_at_first :: "string \<Rightarrow> string \<Rightarrow> (string \<times> string) option" where
  "split_at_first pat [] = (if pat = [] then Some ([], []) else None)"
| "split_at_first pat (c # cs) =
     (if prefix pat (c # cs) then Some ([], drop (length pat) (c # cs))
      else (case split_at_first pat cs of
              None \<Rightarrow> None
            | Some (before, after) \<Rightarrow> Some (c # before, after)))"

subsection \<open>The inclusion tree of the specification\<close>

text \<open>
  The paths are lists of parts. \<open>heads paths\<close> are the names that the paths put at the
  top level, one for each path and in the order of the paths, and \<open>kids paths name\<close> are
  the paths below \<open>name\<close>: what follows \<open>name\<close> in each path that starts with it and goes
  on. \<open>first_occurrences\<close> keeps the members of a list in the order in which they first
  occur.
\<close>

fun heads :: "string list list \<Rightarrow> string list" where
  "heads [] = []"
| "heads ([] # paths) = heads paths"
| "heads ((name # rest) # paths) = name # heads paths"

fun kids :: "string list list \<Rightarrow> string \<Rightarrow> string list list" where
  "kids [] name = []"
| "kids ([] # paths) name = kids paths name"
| "kids ((name' # rest) # paths) name =
     (if name' = name \<and> rest \<noteq> [] then rest # kids paths name else kids paths name)"

fun first_occurrences :: "'a list \<Rightarrow> 'a list" where
  "first_occurrences [] = []"
| "first_occurrences (x # xs) = x # filter (\<lambda>y. y \<noteq> x) (first_occurrences xs)"

definition sibling_names :: "string list list \<Rightarrow> string list" where
  "sibling_names paths = first_occurrences (heads paths)"

definition total_length :: "string list list \<Rightarrow> nat" where
  "total_length paths = sum_list (map length paths)"

text \<open>
  The inclusion tree in the words of the specification (section 4.2), drawn from the list
  of included paths alone, without a trie. The siblings below a parent are the names that
  the list puts there, in the order in which the list first brings them (mapping insertion
  order, which follows the order of the selection). Each name has its line, with the
  connector of the last sibling for the last of them, and below it the drawing of the
  paths that go on below that name, behind the continuation prefix.
\<close>

function expected_tree :: "string list list \<Rightarrow> string \<Rightarrow> string" where
  "expected_tree paths pre =
     concat (map (\<lambda>name.
                    pre @ connector (name = last (sibling_names paths)) @ name @ newline
                    @ expected_tree (kids paths name)
                        (pre @ continuation (name = last (sibling_names paths))))
               (sibling_names paths))"
  by pat_completeness auto

termination
proof (relation "measure (\<lambda>(paths, pre). total_length paths)")
  show "wf (measure (\<lambda>(paths, pre). total_length paths))"
    by simp
next
  fix paths :: "string list list" and pre :: string and name :: string
  assume "name \<in> set (sibling_names paths)"
  have members: "set (first_occurrences xs) = set xs" for xs :: "string list"
    by (induction xs) auto
  have smaller: "total_length (kids ps k) \<le> total_length ps" for ps k
    by (induction ps k rule: kids.induct) (auto simp: total_length_def)
  have "k \<in> set (heads ps) \<Longrightarrow> total_length (kids ps k) < total_length ps" for ps k
  proof (induction ps k rule: kids.induct)
    case (1 k)
    then show ?case by simp
  next
    case (2 ps k)
    then show ?case by (simp add: total_length_def)
  next
    case (3 k' rest ps k)
    from smaller[of ps k] 3 show ?case
      by (auto simp: total_length_def)
  qed
  with \<open>name \<in> set (sibling_names paths)\<close> members
  show "((kids paths name, pre @ continuation (name = last (sibling_names paths))), (paths, pre))
          \<in> measure (\<lambda>(paths, pre). total_length paths)"
    by (simp add: sibling_names_def)
qed

declare expected_tree.simps [simp del]

text \<open>
  The children that an object of the trie holds below the key \<open>k\<close>: the entries of the
  nested object, none for a leaf or for a key that is not there.
\<close>

definition child_of :: "(string \<times> tree_value) list \<Rightarrow> string \<Rightarrow> (string \<times> tree_value) list" where
  "child_of node k = (case map_of node k of Some (Object child) \<Rightarrow> child | _ \<Rightarrow> [])"

text \<open>
  A part of a path is ordinary when it is not an array index and when plain objects do not
  inherit a truthy property of that name.
\<close>

definition ordinary_part :: "(string \<Rightarrow> bool) \<Rightarrow> string \<Rightarrow> bool" where
  "ordinary_part inherited part = (\<not> inherited part \<and> \<not> is_array_index part)"

definition ordinary_paths :: "(string \<Rightarrow> bool) \<Rightarrow> string list list \<Rightarrow> bool" where
  "ordinary_paths inherited paths = list_all (list_all (ordinary_part inherited)) paths"

section \<open>Concrete environments\<close>

text \<open>
  A POSIX working directory \<open>/proj\<close>. \<open>path.join\<close> and \<open>path.relative\<close> are given for the
  normalised paths that occur below; the file system is empty and every access fails
  with \<open>ENOENT\<close> until a field is overridden. The stand-in for glob lists the given paths
  that equal a pattern, all of them for the pattern \<open>**/*\<close>, and the stand-in for the
  \<open>ignore\<close> package flags nothing. Plain objects inherit the properties of
  \<open>Object.prototype\<close> as Node defines them, all of them functions or objects, and the
  properties that a walk through \<open>__proto__\<close> has created there with an object as value:
  the walk \<open>__proto__/a/b\<close> assigns \<open>{}\<close> to \<open>Object.prototype.a\<close>. The stand-in follows
  the built-in objects no further than that, and lets every walk return.
\<close>

definition inherited_names :: "string list" where
  "inherited_names =
     [''constructor'', ''__defineGetter__'', ''__defineSetter__'', ''hasOwnProperty'',
      ''__lookupGetter__'', ''__lookupSetter__'', ''isPrototypeOf'', ''propertyIsEnumerable'',
      ''toString'', ''valueOf'', ''__proto__'', ''toLocaleString'']"

fun creates_inherited :: "string \<Rightarrow> string list \<Rightarrow> bool" where
  "creates_inherited k (first # second # third # others) = (first = ''__proto__'' \<and> second = k)"
| "creates_inherited k walk = False"

definition node_inherited :: "string list list \<Rightarrow> string \<Rightarrow> bool" where
  "node_inherited ws k = (k \<in> set inherited_names \<or> list_ex (creates_inherited k) ws)"

definition ENOENT :: "string \<Rightarrow> error" where
  "ENOENT p = JsError (''ENOENT: no such file or directory, '' @ p)"

definition posix_relative :: "string \<Rightarrow> string \<Rightarrow> string" where
  "posix_relative base p =
     (if base = p then [] else if prefix (base @ ''/'') p then drop (length base + 1) p else p)"

definition literal_glob :: "string list \<Rightarrow> string list \<Rightarrow> GlobOptions \<Rightarrow> error + string list" where
  "literal_glob listing pats opts =
     Inr (filter (\<lambda>f. \<exists>p \<in> set pats. p = ''**/*'' \<or> p = f) listing)"

definition empty_env :: env where
  "empty_env =
     \<lparr>cwd = ''/proj'',
      path_sep = CHR ''/'',
      path_join = (\<lambda>d f. d @ ''/'' @ f),
      path_relative = posix_relative,
      existsSync = (\<lambda>p. False),
      readFileSync = (\<lambda>p. Inl (ENOENT p)),
      readdirSync = (\<lambda>p. Inl (ENOENT p)),
      statSync = (\<lambda>p. Inl (ENOENT p)),
      writeFileSync = (\<lambda>p content. None),
      glob = literal_glob [],
      ignore_package = (\<lambda>rules p. Inr False),
      inherited_property = node_inherited,
      builtin_walk = (\<lambda>ws walk. None),
      promptUser = (\<lambda>q. True)\<rparr>"

definition file_stats :: "nat \<Rightarrow> error + Stats" where
  "file_stats n = Inr \<lparr>isDirectory = False, size_bytes = n\<rparr>"

definition dir_stats :: "error + Stats" where
  "dir_stats = Inr \<lparr>isDirectory = True, size_bytes = 4096\<rparr>"

definition empty_world :: world where
  "empty_world = \<lparr>logged = [], write_calls = [], walks = []\<rparr>"

text \<open>
  The scenario of the specification: \<open>a.txt\<close> of 10 bytes, \<open>b.txt\<close> of 200000 bytes and
  \<open>node_modules/x.js\<close>, which glob prunes.
\<close>

definition scenario_env :: env where
  "scenario_env =
     empty_env
       \<lparr>statSync := (\<lambda>p. if p = ''/proj/a.txt'' then file_stats 10
                         else if p = ''/proj/b.txt'' then file_stats 200000
                         else if p = ''/proj/node_modules'' then dir_stats
                         else if p = ''/proj/node_modules/x.js'' then file_stats 30
                         else Inl (ENOENT p)),
        glob := literal_glob [''a.txt'', ''b.txt'']\<rparr>"

text \<open>\<open>a.txt\<close> is listed by glob and gone when \<open>statSync\<close> runs; \<open>b.txt\<close> has 20 bytes.\<close>

definition vanished_env :: env where
  "vanished_env =
     empty_env
       \<lparr>statSync := (\<lambda>p. if p = ''/proj/b.txt'' then file_stats 20 else Inl (ENOENT p)),
        glob := literal_glob [''a.txt'', ''b.txt'']\<rparr>"

text \<open>
  A second run in a project whose \<open>.gitignore\<close> holds the line \<open>!codewise-output.md\<close>: the
  output of the first run, 5000 bytes, lies beside \<open>app.ts\<close>. The \<open>ignore\<close> package is the
  rule precedence above with patterns matched literally.
\<close>

definition second_run_env :: env where
  "second_run_env =
     empty_env
       \<lparr>existsSync := (\<lambda>p. p = ''.gitignore''),
        readFileSync := (\<lambda>p. if p = ''.gitignore'' then Inr (''!codewise-output.md'' @ newline)
                              else Inl (ENOENT p)),
        statSync := (\<lambda>p. if p = ''/proj/app.ts'' then file_stats 120
                         else if p = ''/proj/codewise-output.md'' then file_stats 5000
                         else Inl (ENOENT p)),
        glob := literal_glob [''app.ts'', ''codewise-output.md''],
        ignore_package := (\<lambda>rules p. Inr (gitignore_verdict (=) rules p))\<rparr>"

text \<open>
  A project with the directories \<open>.git\<close>, \<open>node_modules\<close>, \<open>dist\<close> and \<open>src\<close> and the file
  \<open>a.txt\<close>. The stand-in for the \<open>ignore\<close> package flags exactly the paths that are
  rules.
\<close>

definition tree_env :: env where
  "tree_env =
     empty_env
       \<lparr>readdirSync := (\<lambda>p. if p = ''/proj''
                            then Inr [''.git'', ''node_modules'', ''dist'', ''src'', ''a.txt'']
                            else if p = ''/proj/.git'' then Inr [''HEAD'']
                            else if p = ''/proj/node_modules'' then Inr [''x.js'']
                            else if p = ''/proj/dist'' then Inr [''out.js'']
                            else if p = ''/proj/src'' then Inr [''index.ts'']
                            else Inl (ENOENT p)),
        statSync := (\<lambda>p. if p = ''/proj/.git'' \<or> p = ''/proj/node_modules'' \<or> p = ''/proj/dist''
                              \<or> p = ''/proj/src''
                         then dir_stats
                         else if p = ''/proj/a.txt'' \<or> p = ''/proj/.git/HEAD''
                                 \<or> p = ''/proj/node_modules/x.js''
                                 \<or> p = ''/proj/dist/out.js'' \<or> p = ''/proj/src/index.ts''
                         then file_stats 10
                         else Inl (ENOENT p)),
        ignore_package := (\<lambda>rules p. Inr (p \<in> set rules))\<rparr>"

text \<open>A project with three files, of which \<open>secret.txt\<close> cannot be read.\<close>

definition EACCES :: "string \<Rightarrow> error" where
  "EACCES p = JsError (''EACCES: permission denied, open '' @ p)"

definition unreadable_env :: env where
  "unreadable_env =
     empty_env
       \<lparr>readdirSync := (\<lambda>p. if p = ''/proj'' then Inr [''a.txt'', ''secret.txt'', ''b.txt'']
                            else Inl (ENOENT p)),
        statSync := (\<lambda>p. if p = ''/proj/a.txt'' \<or> p = ''/proj/secret.txt'' \<or> p = ''/proj/b.txt''
                         then file_stats 5
                         else Inl (ENOENT p)),
        readFileSync := (\<lambda>p. if p = ''/proj/a.txt'' then Inr ''alpha''
                              else if p = ''/proj/b.txt'' then Inr ''beta''
                              else if p = ''/proj/secret.txt'' then Inl (EACCES p)
                              else Inl (ENOENT p)),
        glob := literal_glob [''a.txt'', ''secret.txt'', ''b.txt'']\<rparr>"

text \<open>A project with the single file \<open>a.txt\<close>, in a directory where nothing can be
  written.\<close>

definition readonly_env :: env where
  "readonly_env =
     empty_env
       \<lparr>readdirSync := (\<lambda>p. if p = ''/proj'' then Inr [''a.txt''] else Inl (ENOENT p)),
        statSync := (\<lambda>p. if p = ''/proj/a.txt'' then file_stats 5 else Inl (ENOENT p)),
        readFileSync := (\<lambda>p. if p = ''/proj/a.txt'' then Inr ''alpha'' else Inl (ENOENT p)),
        writeFileSync := (\<lambda>p content. Some (EACCES p)),
        glob := literal_glob [''a.txt'']\<rparr>"

text \<open>The document that the run assembles there.\<close>

definition readonly_document :: string where
  "readonly_document =
     ''Full File Tree:'' @ newline @ newline @ connector True @ ''a.txt'' @ newline
     @ newline @ ''Included Files:'' @ newline @ newline @ connector True @ ''a.txt'' @ newline
     @ newline @ ''Code Context:'' @ newline @ newline
     @ markdown_block ''a.txt'' ''alpha''"

text \<open>
  A project with a source file that compares an element of a nested array, and a README
  with a fenced code block of its own.
\<close>

definition snippets_env :: env where
  "snippets_env =
     empty_env
       \<lparr>readFileSync :=
          (\<lambda>p. if p = ''/proj/src/a.ts'' then Inr ''if (a[b[0]]>0) run();''
               else if p = ''/proj/README.md''
               then Inr (''Usage:'' @ newline @ ''```'' @ newline @ ''codewise'' @ newline
                         @ ''```'' @ newline)
               else Inl (ENOENT p))\<rparr>"

section \<open>File selection\<close>

lemma filter_throwing_member:
  "filter_throwing p xs = Inr ys \<Longrightarrow> y \<in> set ys \<Longrightarrow> y \<in> set xs \<and> p y = Inr True"
proof (induction xs arbitrary: ys)
  case Nil
  then show ?case by simp
next
  case (Cons x xs)
  then show ?case
    by (auto split: sum.splits if_splits)
qed

lemma filter_throwing_throws:
  "x \<in> set xs \<Longrightarrow> p x = Inl err \<Longrightarrow> \<exists>err'. filter_throwing p xs = Inl err'"
  by (induction xs) (auto split: sum.splits)

lemma getIncludedFiles_throws:
  assumes "glob e (globPattern config) (globOptions dir config) = Inr allFiles"
    and "f \<in> set allFiles"
    and "statSync e (path_join e dir f) = Inl err"
  shows "\<exists>err'. getIncludedFiles e dir config ig = Inl err'"
proof -
  from assms(3) have "isIncluded e dir config ig f = Inl err"
    by (simp add: isIncluded_def)
  with assms(2) have "\<exists>err'. filter_throwing (isIncluded e dir config ig) allFiles = Inl err'"
    by (rule filter_throwing_throws)
  with assms(1) show ?thesis
    by (simp add: getIncludedFiles_def)
qed

text \<open>
  C1. Whenever the selection returns a list, every path in it matches one of the include
  patterns (the single pattern \<open>**/*\<close> when \<open>include\<close> is empty), is not flagged by the
  matcher handed to the selection (\<open>ig.ignores\<close> returns \<open>false\<close> for it), and has a size of
  at most \<open>maxFileSize\<close> bytes. The first part is glob's contract; the other two are the
  filter of lines 94-99.
\<close>

theorem getIncludedFiles_sound:
  assumes "glob_sound matches e"
    and "getIncludedFiles e dir config ig = Inr files"
    and "f \<in> set files"
  shows "(\<exists>p \<in> set (if include_patterns config = [] then [''**/*''] else include_patterns config).
            matches p f)
         \<and> ignores e ig f = Inr False
         \<and> (\<exists>stats. statSync e (path_join e dir f) = Inr stats
               \<and> int (size_bytes stats) \<le> maxFileSize config)"
proof -
  from assms(2) obtain allFiles where
    g: "glob e (globPattern config) (globOptions dir config) = Inr allFiles" and
    flt: "filter_throwing (isIncluded e dir config ig) allFiles = Inr files"
    by (auto simp: getIncludedFiles_def split: sum.splits)
  from filter_throwing_member[OF flt assms(3)]
  have mem: "f \<in> set allFiles" and inc: "isIncluded e dir config ig f = Inr True"
    by simp_all
  from assms(1) g mem have "\<exists>p \<in> set (globPattern config). matches p f"
    unfolding glob_sound_def by blast
  moreover have "globPattern config
      = (if include_patterns config = [] then [''**/*''] else include_patterns config)"
    by (simp add: globPattern_def)
  moreover from inc have "ignores e ig f = Inr False
      \<and> (\<exists>stats. statSync e (path_join e dir f) = Inr stats
            \<and> int (size_bytes stats) \<le> maxFileSize config)"
    by (auto simp: isIncluded_def Let_def split: sum.splits)
  ultimately show ?thesis by simp
qed

lemma literal_glob_sound:
  "glob e = literal_glob listing \<Longrightarrow> glob_sound (\<lambda>p f. p = ''**/*'' \<or> p = f) e"
  by (auto simp: glob_sound_def literal_glob_def)

lemma scenario_selection:
  "getIncludedFiles scenario_env ''/proj'' DEFAULT_CONFIG (Ignore []) = Inr [''a.txt'']"
  by (simp add: getIncludedFiles_def globPattern_def globOptions_def isIncluded_def
      scenario_env_def empty_env_def literal_glob_def DEFAULT_CONFIG_def ignores_def
      file_stats_def)

theorem getIncludedFiles_sound_witness:
  "getIncludedFiles scenario_env ''/proj'' DEFAULT_CONFIG (Ignore []) = Inr [''a.txt'']
   \<and> (\<exists>p \<in> set (include_patterns DEFAULT_CONFIG). p = ''**/*'' \<or> p = ''a.txt'')
   \<and> ignores scenario_env (Ignore []) ''a.txt'' = Inr False
   \<and> (\<exists>stats. statSync scenario_env (path_join scenario_env ''/proj'' ''a.txt'') = Inr stats
         \<and> int (size_bytes stats) \<le> maxFileSize DEFAULT_CONFIG)"
proof -
  have snd: "glob_sound (\<lambda>p f. p = ''**/*'' \<or> p = f) scenario_env"
    by (rule literal_glob_sound[of _ "[''a.txt'', ''b.txt'']"])
       (simp add: scenario_env_def empty_env_def)
  have mem: "''a.txt'' \<in> set [''a.txt'']" by simp
  have ne: "include_patterns DEFAULT_CONFIG \<noteq> []" by (simp add: DEFAULT_CONFIG_def)
  from getIncludedFiles_sound[OF snd scenario_selection mem] ne scenario_selection
  show ?thesis by simp
qed

text \<open>
  C2. \<open>createIgnore\<close> does put the output path among the rules, but before the text of
  \<open>.gitignore\<close>. With the line \<open>!codewise-output.md\<close> there, the matcher does not flag the
  output file of an earlier run, and the selection returns it.
\<close>

theorem output_file_is_selected:
  "createIgnore second_run_env DEFAULT_CONFIG ''codewise-output.md''
     = Inr (Ignore (exclude_patterns DEFAULT_CONFIG
                      @ [''codewise-output.md'', ''!codewise-output.md'' @ newline]))
   \<and> ignores second_run_env
         (Ignore (exclude_patterns DEFAULT_CONFIG
                    @ [''codewise-output.md'', ''!codewise-output.md'' @ newline]))
         ''codewise-output.md''
       = Inr False
   \<and> getIncludedFiles second_run_env ''/proj'' DEFAULT_CONFIG
        (Ignore (exclude_patterns DEFAULT_CONFIG
                   @ [''codewise-output.md'', ''!codewise-output.md'' @ newline]))
       = Inr [''app.ts'', ''codewise-output.md'']"
  by (simp add: createIgnore_def getIncludedFiles_def globPattern_def globOptions_def
      isIncluded_def second_run_env_def empty_env_def literal_glob_def DEFAULT_CONFIG_def
      ignores_def file_stats_def gitignore_verdict_def gitignore_rule_def newline_def)

text \<open>
  C3. A path that glob lists and \<open>statSync\<close> cannot read (removed after the listing, or a
  dangling symbolic link) makes the callback of \<open>filter\<close> throw: the selection ends with
  that error and returns no list, although \<open>b.txt\<close> is readable and small enough.
\<close>

theorem getIncludedFiles_aborts_on_stat_failure:
  "glob vanished_env (globPattern DEFAULT_CONFIG) (globOptions ''/proj'' DEFAULT_CONFIG)
     = Inr [''a.txt'', ''b.txt'']
   \<and> statSync vanished_env ''/proj/a.txt'' = Inl (ENOENT ''/proj/a.txt'')
   \<and> isIncluded vanished_env ''/proj'' DEFAULT_CONFIG (Ignore []) ''b.txt'' = Inr True
   \<and> getIncludedFiles vanished_env ''/proj'' DEFAULT_CONFIG (Ignore [])
       = Inl (ENOENT ''/proj/a.txt'')"
  by (simp add: getIncludedFiles_def globPattern_def globOptions_def isIncluded_def
      vanished_env_def empty_env_def literal_glob_def DEFAULT_CONFIG_def ignores_def
      file_stats_def)

section \<open>The full tree\<close>

lemma generateFullFileTree_listing:
  "readdirSync e dir = Inr files \<Longrightarrow>
   generateFullFileTree (Suc k) e ig dir pre
     = tree_entries (generateFullFileTree k e ig) e ig dir pre (length files) 0 files"
  by simp

text \<open>When the callback returns for one entry, and what it has appended then.\<close>

lemma tree_entry_returns:
  "tree_entry recurse e ig dir pre isLast file = Some (Inr text) \<longleftrightarrow>
   (\<exists>stats flagged.
      ignores e ig (path_relative e (cwd e) (path_join e dir file)) = Inr flagged
      \<and> statSync e (path_join e dir file) = Inr stats
      \<and> (isDirectory stats \<and> (file = ''node_modules'' \<or> file = ''.git'') \<longrightarrow>
           text = pre @ connector isLast @ file @ newline
                  @ pre @ continuation isLast @ connector True @ ''...'' @ newline)
      \<and> (isDirectory stats \<and> file \<noteq> ''node_modules'' \<and> file \<noteq> ''.git'' \<and> flagged \<longrightarrow>
           text = pre @ connector isLast @ file @ newline)
      \<and> (\<not> isDirectory stats \<longrightarrow> text = pre @ connector isLast @ file @ newline)
      \<and> (isDirectory stats \<and> file \<noteq> ''node_modules'' \<and> file \<noteq> ''.git'' \<and> \<not> flagged \<longrightarrow>
           (\<exists>sub. recurse (path_join e dir file) (pre @ continuation isLast) = Some (Inr sub)
                  \<and> text = pre @ connector isLast @ file @ newline @ sub)))"
  by (auto simp: tree_entry_def Let_def split: sum.splits option.splits)

text \<open>The loop over a listing returns exactly when the callback returns for every entry,
  and its result is then the texts of the entries, one after the other.\<close>

lemma tree_entries_returns:
  "tree_entries recurse e ig dir pre n i files = Some (Inr tree) \<longleftrightarrow>
   (\<exists>texts. length texts = length files \<and> tree = concat texts
       \<and> (\<forall>j<length files.
             tree_entry recurse e ig dir pre (i + j = n - 1) (files ! j) = Some (Inr (texts ! j))))"
proof (induction files arbitrary: i tree)
  case Nil
  then show ?case by auto
next
  case (Cons entry rest)
  show ?case
  proof
    assume "tree_entries recurse e ig dir pre n i (entry # rest) = Some (Inr tree)"
    then obtain s t where
      s: "tree_entry recurse e ig dir pre (i = n - 1) entry = Some (Inr s)" and
      t: "tree_entries recurse e ig dir pre n (Suc i) rest = Some (Inr t)" and
      tree: "tree = s @ t"
      by (auto split: option.splits sum.splits)
    from t Cons.IH[of "Suc i" t] obtain ts where
      len: "length ts = length rest" and cat: "t = concat ts" and
      each: "\<forall>j<length rest.
               tree_entry recurse e ig dir pre (Suc i + j = n - 1) (rest ! j) = Some (Inr (ts ! j))"
      by blast
    have "\<forall>j<length (entry # rest).
            tree_entry recurse e ig dir pre (i + j = n - 1) ((entry # rest) ! j)
              = Some (Inr ((s # ts) ! j))"
    proof (intro allI impI)
      fix j
      assume "j < length (entry # rest)"
      then show "tree_entry recurse e ig dir pre (i + j = n - 1) ((entry # rest) ! j)
                   = Some (Inr ((s # ts) ! j))"
        using s each by (cases j) auto
    qed
    with len cat tree
    show "\<exists>texts. length texts = length (entry # rest) \<and> tree = concat texts
            \<and> (\<forall>j<length (entry # rest).
                  tree_entry recurse e ig dir pre (i + j = n - 1) ((entry # rest) ! j)
                    = Some (Inr (texts ! j)))"
      by (intro exI[of _ "s # ts"]) simp
  next
    assume "\<exists>texts. length texts = length (entry # rest) \<and> tree = concat texts
              \<and> (\<forall>j<length (entry # rest).
                    tree_entry recurse e ig dir pre (i + j = n - 1) ((entry # rest) ! j)
                      = Some (Inr (texts ! j)))"
    then obtain texts where
      len: "length texts = Suc (length rest)" and tree: "tree = concat texts" and
      each: "\<forall>j<Suc (length rest).
               tree_entry recurse e ig dir pre (i + j = n - 1) ((entry # rest) ! j)
                 = Some (Inr (texts ! j))"
      by auto
    from len obtain s ts where texts: "texts = s # ts" and len': "length ts = length rest"
      by (auto simp: length_Suc_conv)
    from each[rule_format, of 0] texts
    have s: "tree_entry recurse e ig dir pre (i = n - 1) entry = Some (Inr s)"
      by simp
    have "\<forall>j<length rest.
            tree_entry recurse e ig dir pre (Suc i + j = n - 1) (rest ! j) = Some (Inr (ts ! j))"
    proof (intro allI impI)
      fix j
      assume "j < length rest"
      with each[rule_format, of "Suc j"] texts
      show "tree_entry recurse e ig dir pre (Suc i + j = n - 1) (rest ! j) = Some (Inr (ts ! j))"
        by simp
    qed
    with len' Cons.IH[of "Suc i" "concat ts"]
    have "tree_entries recurse e ig dir pre n (Suc i) rest = Some (Inr (concat ts))"
      by blast
    with s tree texts
    show "tree_entries recurse e ig dir pre n i (entry # rest) = Some (Inr tree)"
      by simp
  qed
qed

text \<open>
  C7. The traversal of a directory whose listing is \<open>files\<close> returns a tree exactly when,
  for every entry, the matcher and \<open>statSync\<close> return and, for a directory that is neither
  named \<open>node_modules\<close> or \<open>.git\<close> nor flagged, the traversal of that directory returns.
  The tree is then the texts of the entries in listing order. A directory named
  \<open>node_modules\<close> or \<open>.git\<close> gives its own line and one placeholder line \<open>...\<close> below it,
  flagged or not; another directory that the matcher flags gives its line alone, and so
  does every entry that is not a directory. For none of these is anything asked of the
  traversal below the entry: it is not made. Only a directory of the fourth kind is followed
  by its own traversal.
\<close>

theorem generateFullFileTree_entries:
  assumes "readdirSync e dir = Inr files"
  shows "generateFullFileTree (Suc k) e ig dir pre = Some (Inr tree) \<longleftrightarrow>
         (\<exists>texts. length texts = length files \<and> tree = concat texts
            \<and> (\<forall>i<length files.
                  \<exists>stats flagged.
                    ignores e ig (path_relative e (cwd e) (path_join e dir (files ! i)))
                      = Inr flagged
                    \<and> statSync e (path_join e dir (files ! i)) = Inr stats
                    \<and> (isDirectory stats
                          \<and> (files ! i = ''node_modules'' \<or> files ! i = ''.git'') \<longrightarrow>
                        texts ! i
                          = pre @ connector (i = length files - 1) @ files ! i @ newline
                            @ pre @ continuation (i = length files - 1) @ connector True
                            @ ''...'' @ newline)
                    \<and> (isDirectory stats \<and> files ! i \<noteq> ''node_modules''
                          \<and> files ! i \<noteq> ''.git'' \<and> flagged \<longrightarrow>
                        texts ! i = pre @ connector (i = length files - 1) @ files ! i @ newline)
                    \<and> (\<not> isDirectory stats \<longrightarrow>
                        texts ! i = pre @ connector (i = length files - 1) @ files ! i @ newline)
                    \<and> (isDirectory stats \<and> files ! i \<noteq> ''node_modules''
                          \<and> files ! i \<noteq> ''.git'' \<and> \<not> flagged \<longrightarrow>
                        (\<exists>sub. generateFullFileTree k e ig (path_join e dir (files ! i))
                                  (pre @ continuation (i = length files - 1))
                                = Some (Inr sub)
                            \<and> texts ! i
                                = pre @ connector (i = length files - 1) @ files ! i @ newline
                                  @ sub))))"
proof -
  have "generateFullFileTree (Suc k) e ig dir pre
          = tree_entries (generateFullFileTree k e ig) e ig dir pre (length files) 0 files"
    using assms by simp
  then show ?thesis
    by (simp only: tree_entries_returns tree_entry_returns add_0)
qed

theorem generateFullFileTree_entries_witness:
  "readdirSync tree_env ''/proj'' = Inr [''.git'', ''node_modules'', ''dist'', ''src'', ''a.txt'']
   \<and> generateFullFileTree (Suc (Suc 0)) tree_env (Ignore [''node_modules'', ''dist'']) ''/proj'' []
     = Some (Inr (concat
         [connector False @ ''.git'' @ newline
            @ continuation False @ connector True @ ''...'' @ newline,
          connector False @ ''node_modules'' @ newline
            @ continuation False @ connector True @ ''...'' @ newline,
          connector False @ ''dist'' @ newline,
          connector False @ ''src'' @ newline
            @ continuation False @ connector True @ ''index.ts'' @ newline,
          connector True @ ''a.txt'' @ newline]))"
proof -
  let ?ig = "Ignore [''node_modules'', ''dist'']"
  let ?texts =
    "[connector False @ ''.git'' @ newline
        @ continuation False @ connector True @ ''...'' @ newline,
      connector False @ ''node_modules'' @ newline
        @ continuation False @ connector True @ ''...'' @ newline,
      connector False @ ''dist'' @ newline,
      connector False @ ''src'' @ newline
        @ continuation False @ connector True @ ''index.ts'' @ newline,
      connector True @ ''a.txt'' @ newline]"
  have listing:
    "readdirSync tree_env ''/proj'' = Inr [''.git'', ''node_modules'', ''dist'', ''src'', ''a.txt'']"
    by (simp add: tree_env_def empty_env_def)
  have "generateFullFileTree (Suc (Suc 0)) tree_env ?ig ''/proj'' [] = Some (Inr (concat ?texts))"
    by (rule iffD2[OF generateFullFileTree_entries[OF listing]], rule exI[of _ ?texts])
       (simp add: All_less_Suc tree_entry_def tree_env_def empty_env_def ignores_def
          posix_relative_def dir_stats_def file_stats_def)
  with listing show ?thesis by simp
qed

section \<open>Document assembly\<close>

lemma getFileContent_result:
  "getFileContent e filePath config w
     = (Inr (block_or_placeholder e config filePath),
        case readFileSync e filePath of
          Inl err \<Rightarrow> log_error (''Error reading file '' @ filePath @ '':'') err w
        | Inr content \<Rightarrow> w)"
  by (simp add: getFileContent_def file_block_def block_or_placeholder_def Let_def
      split: sum.splits)

lemma append_contents_result:
  "fst (append_contents e dir config files ctx w)
     = Inr (ctx @ concat (map (\<lambda>f. block_or_placeholder e config (path_join e dir f)) files))"
proof (induction files arbitrary: ctx w)
  case Nil
  then show ?case by simp
next
  case (Cons f files)
  then show ?case by (simp add: getFileContent_result)
qed

text \<open>
  C8. \<open>getFileContent\<close> returns a string for every path and never throws; for a file that
  cannot be read the string is the line with the path and the message of the failure.
  Once the full tree and the selection are there, the document is returned and its last
  section holds one block for each selected file, in order, read or not. (The drawing of
  the inclusion tree comes before the first read; an error thrown there is the result.)
\<close>

theorem read_failure_is_recovered:
  assumes "generateFullFileTree fuel e ig dir [] = Some (Inr tree)"
    and "getIncludedFiles e dir config ig = Inr files"
  shows "(\<forall>filePath w0. \<exists>block. fst (getFileContent e filePath config w0) = Inr block)
         \<and> (\<forall>filePath w0 err. readFileSync e filePath = Inl err \<longrightarrow>
               getFileContent e filePath config w0
                 = (Inr (''Error reading file '' @ filePath @ '': '' @ message err
                         @ newline @ newline),
                    log_error (''Error reading file '' @ filePath @ '':'') err w0))
         \<and> fst (generateCodeContext fuel e dir config ig w)
             = (case fst (formatIncludedFiles e files w) of
                  Inl err \<Rightarrow> Some (Inl err)
                | Inr included \<Rightarrow>
                    Some (Inr (''Full File Tree:'' @ newline @ newline @ tree
                               @ newline @ ''Included Files:'' @ newline @ newline
                               @ included
                               @ newline @ ''Code Context:'' @ newline @ newline
                               @ concat (map (\<lambda>f. block_or_placeholder e config
                                                     (path_join e dir f))
                                           files))))"
proof -
  have "\<forall>filePath w0. \<exists>block. fst (getFileContent e filePath config w0) = Inr block"
    by (simp add: getFileContent_result)
  moreover have "\<forall>filePath w0 err. readFileSync e filePath = Inl err \<longrightarrow>
               getFileContent e filePath config w0
                 = (Inr (''Error reading file '' @ filePath @ '': '' @ message err
                         @ newline @ newline),
                    log_error (''Error reading file '' @ filePath @ '':'') err w0)"
    by (simp add: getFileContent_result block_or_placeholder_def read_error_line_def)
  moreover have "fst (generateCodeContext fuel e dir config ig w)
             = (case fst (formatIncludedFiles e files w) of
                  Inl err \<Rightarrow> Some (Inl err)
                | Inr included \<Rightarrow>
                    Some (Inr (''Full File Tree:'' @ newline @ newline @ tree
                               @ newline @ ''Included Files:'' @ newline @ newline
                               @ included
                               @ newline @ ''Code Context:'' @ newline @ newline
                               @ concat (map (\<lambda>f. block_or_placeholder e config
                                                     (path_join e dir f))
                                           files))))"
    by (simp add: generateCodeContext_def assms case_prod_beta append_contents_result
        split: sum.splits)
  ultimately show ?thesis by blast
qed

lemma unreadable_tree:
  "generateFullFileTree (Suc 0) unreadable_env ig ''/proj'' []
     = Some (Inr (connector False @ ''a.txt'' @ newline @ connector False @ ''secret.txt''
                  @ newline @ connector True @ ''b.txt'' @ newline))"
  by (simp add: tree_entry_def ignores_def unreadable_env_def empty_env_def file_stats_def)

lemma unreadable_selection:
  "getIncludedFiles unreadable_env ''/proj'' DEFAULT_CONFIG (Ignore [])
     = Inr [''a.txt'', ''secret.txt'', ''b.txt'']"
  by (simp add: getIncludedFiles_def globPattern_def globOptions_def isIncluded_def
      unreadable_env_def empty_env_def literal_glob_def DEFAULT_CONFIG_def ignores_def
      file_stats_def)

lemma unreadable_inclusion_tree:
  "walks w = [] \<Longrightarrow>
   formatIncludedFiles unreadable_env [''a.txt'', ''secret.txt'', ''b.txt''] w
     = (Inr (connector False @ ''a.txt'' @ newline @ connector False @ ''secret.txt''
             @ newline @ connector True @ ''b.txt'' @ newline), w)"
  by (simp add: formatIncludedFiles_def renderTree_def get_property_def set_property_def
      node_inherited_def inherited_names_def is_array_index_def is_digit_def unreadable_env_def empty_env_def)

lemma unreadable_blocks:
  "block_or_placeholder unreadable_env DEFAULT_CONFIG (path_join unreadable_env ''/proj'' ''a.txt'')
     = markdown_block ''a.txt'' ''alpha''"
  "block_or_placeholder unreadable_env DEFAULT_CONFIG
       (path_join unreadable_env ''/proj'' ''secret.txt'')
     = read_error_line ''/proj/secret.txt'' (EACCES ''/proj/secret.txt'')"
  "block_or_placeholder unreadable_env DEFAULT_CONFIG (path_join unreadable_env ''/proj'' ''b.txt'')
     = markdown_block ''b.txt'' ''beta''"
  by (simp_all add: block_or_placeholder_def unreadable_env_def empty_env_def
      DEFAULT_CONFIG_def posix_relative_def)

theorem read_failure_is_recovered_witness:
  "getFileContent unreadable_env ''/proj/secret.txt'' DEFAULT_CONFIG empty_world
     = (Inr (''Error reading file /proj/secret.txt: ''
             @ ''EACCES: permission denied, open /proj/secret.txt'' @ newline @ newline),
        log_error ''Error reading file /proj/secret.txt:'' (EACCES ''/proj/secret.txt'')
          empty_world)
   \<and> fst (generateCodeContext (Suc 0) unreadable_env ''/proj'' DEFAULT_CONFIG (Ignore [])
            empty_world)
     = Some (Inr (''Full File Tree:'' @ newline @ newline
                  @ connector False @ ''a.txt'' @ newline @ connector False @ ''secret.txt''
                  @ newline @ connector True @ ''b.txt'' @ newline
                  @ newline @ ''Included Files:'' @ newline @ newline
                  @ connector False @ ''a.txt'' @ newline @ connector False @ ''secret.txt''
                  @ newline @ connector True @ ''b.txt'' @ newline
                  @ newline @ ''Code Context:'' @ newline @ newline
                  @ markdown_block ''a.txt'' ''alpha''
                  @ read_error_line ''/proj/secret.txt'' (EACCES ''/proj/secret.txt'')
                  @ markdown_block ''b.txt'' ''beta''))"
proof -
  have rd: "readFileSync unreadable_env ''/proj/secret.txt'' = Inl (EACCES ''/proj/secret.txt'')"
    by (simp add: unreadable_env_def empty_env_def)
  note inst = read_failure_is_recovered[OF unreadable_tree unreadable_selection,
      where w = empty_world]
  from inst have "getFileContent unreadable_env ''/proj/secret.txt'' DEFAULT_CONFIG empty_world
     = (Inr (''Error reading file '' @ ''/proj/secret.txt'' @ '': ''
             @ message (EACCES ''/proj/secret.txt'') @ newline @ newline),
        log_error (''Error reading file '' @ ''/proj/secret.txt'' @ '':'')
          (EACCES ''/proj/secret.txt'') empty_world)"
    using rd by blast
  moreover from inst have "fst (generateCodeContext (Suc 0) unreadable_env ''/proj''
                                 DEFAULT_CONFIG (Ignore []) empty_world)
     = Some (Inr (''Full File Tree:'' @ newline @ newline
                  @ (connector False @ ''a.txt'' @ newline @ connector False @ ''secret.txt''
                     @ newline @ connector True @ ''b.txt'' @ newline)
                  @ newline @ ''Included Files:'' @ newline @ newline
                  @ (connector False @ ''a.txt'' @ newline @ connector False @ ''secret.txt''
                     @ newline @ connector True @ ''b.txt'' @ newline)
                  @ newline @ ''Code Context:'' @ newline @ newline
                  @ concat (map (\<lambda>f. block_or_placeholder unreadable_env DEFAULT_CONFIG
                                        (path_join unreadable_env ''/proj'' f))
                              [''a.txt'', ''secret.txt'', ''b.txt''])))"
    by (simp add: unreadable_inclusion_tree empty_world_def)
  ultimately show ?thesis
    by (simp add: unreadable_blocks EACCES_def)
qed

section \<open>Writing the document\<close>

lemma readonly_selection:
  "getIncludedFiles readonly_env ''/proj'' DEFAULT_CONFIG
     (Ignore (exclude_patterns DEFAULT_CONFIG @ [''codewise-output.md'']))
   = Inr [''a.txt'']"
  by (simp add: getIncludedFiles_def globPattern_def globOptions_def isIncluded_def
      readonly_env_def empty_env_def literal_glob_def DEFAULT_CONFIG_def ignores_def
      file_stats_def)

lemma readonly_tree:
  "generateFullFileTree (Suc 0) readonly_env ig ''/proj'' []
     = Some (Inr (connector True @ ''a.txt'' @ newline))"
  by (simp add: tree_entry_def ignores_def readonly_env_def empty_env_def file_stats_def)

lemma walks_log_info: "walks (log_info msg w) = walks w"
  by (simp add: log_info_def)

lemma readonly_inclusion_tree:
  "walks w = [] \<Longrightarrow>
   formatIncludedFiles readonly_env [''a.txt''] w = (Inr (connector True @ ''a.txt'' @ newline), w)"
  by (simp add: formatIncludedFiles_def renderTree_def get_property_def
      set_property_def node_inherited_def inherited_names_def is_array_index_def is_digit_def
      readonly_env_def empty_env_def)

lemma readonly_context:
  assumes "walks w = []"
  shows "generateCodeContext (Suc 0) readonly_env ''/proj'' DEFAULT_CONFIG
           (Ignore (exclude_patterns DEFAULT_CONFIG @ [''codewise-output.md''])) w
         = (Some (Inr readonly_document), w)"
proof -
  have blk: "block_or_placeholder readonly_env DEFAULT_CONFIG
               (path_join readonly_env ''/proj'' ''a.txt'') = markdown_block ''a.txt'' ''alpha''"
    by (simp add: block_or_placeholder_def readonly_env_def empty_env_def DEFAULT_CONFIG_def
        posix_relative_def)
  have rd: "readFileSync readonly_env (path_join readonly_env ''/proj'' ''a.txt'') = Inr ''alpha''"
    by (simp add: readonly_env_def empty_env_def)
  show ?thesis
    by (simp add: generateCodeContext_def readonly_tree readonly_selection
        readonly_inclusion_tree[OF assms] getFileContent_result readonly_document_def blk rd
        del: generateFullFileTree.simps)
qed

text \<open>
  C4, as stated, fails: in a directory where nothing can be written the write throws,
  \<open>writeToFile\<close> logs the error and returns normally to \<open>main\<close>, and the run completes
  without exit code 1.
\<close>

theorem write_failure_run_completes:
  "writeFileSync readonly_env ''codewise-output.md'' readonly_document
     = Some (EACCES ''codewise-output.md'')
   \<and> fst (writeToFile readonly_env readonly_document ''codewise-output.md'' empty_world)
     = Inr ()
   \<and> fst (run (Suc 0) readonly_env DEFAULT_CONFIG ''codewise-output.md'' empty_world)
     = Some Completed
   \<and> LogError ''Error writing to file codewise-output.md:'' (EACCES ''codewise-output.md'')
       \<in> set (logged (snd (run (Suc 0) readonly_env DEFAULT_CONFIG ''codewise-output.md''
                               empty_world)))"
proof -
  let ?w1 = "log_info ''Files to be included:'' empty_world"
  let ?w3 = "log_info ''Generating code context...''
               (log_info (newline @ connector True @ ''a.txt'' @ newline) ?w1)"
  let ?w5 = "log_error ''Error writing to file codewise-output.md:''
               (EACCES ''codewise-output.md'')
               (?w3\<lparr>write_calls := write_calls ?w3 @ [(''codewise-output.md'', readonly_document)]\<rparr>)"
  have c: "cwd readonly_env = ''/proj''"
    and x: "\<not> existsSync readonly_env ''.gitignore''"
    and wf: "writeFileSync readonly_env ''codewise-output.md'' readonly_document
               = Some (EACCES ''codewise-output.md'')"
    by (simp_all add: readonly_env_def empty_env_def)
  have p: "promptUser readonly_env q" for q
    by (simp add: readonly_env_def empty_env_def)
  have none: "walks empty_world = []"
    by (simp add: empty_world_def)
  have wt: "writeToFile readonly_env readonly_document ''codewise-output.md'' w
              = (Inr (), log_error ''Error writing to file codewise-output.md:''
                           (EACCES ''codewise-output.md'')
                           (w\<lparr>write_calls := write_calls w
                                @ [(''codewise-output.md'', readonly_document)]\<rparr>))" for w
    by (simp add: writeToFile_def wf Let_def)
  have m: "main (Suc 0) readonly_env DEFAULT_CONFIG ''codewise-output.md'' empty_world
             = (Some (Inr ()),
                log_info ''Content generated. You can find it in the output file.'' ?w5)"
    by (simp add: main_def createIgnore_def c x p readonly_selection readonly_inclusion_tree
        readonly_context walks_log_info none wt del: generateFullFileTree.simps)
  have r: "run (Suc 0) readonly_env DEFAULT_CONFIG ''codewise-output.md'' empty_world
             = (Some Completed,
                log_info ''Content generated. You can find it in the output file.'' ?w5)"
    by (simp add: run_def m del: generateFullFileTree.simps)
  have l: "LogError ''Error writing to file codewise-output.md:'' (EACCES ''codewise-output.md'')
             \<in> set (logged (log_info ''Content generated. You can find it in the output file.''
                               ?w5))"
    by (simp add: log_info_def log_error_def)
  from wf wt[of empty_world] r l show ?thesis
    by (simp del: generateFullFileTree.simps)
qed

text \<open>
  C4, amended. When the write of the document throws in a run that has reached it,
  \<open>writeToFile\<close> catches the error, hands it to \<open>logger.error\<close> with the text
  \<open>Error writing to file\<close> and the path, and returns normally: the failure does not reach
  the caller, and the run is not ended by it but completes without exit code 1.
\<close>

theorem write_failure_is_logged_and_swallowed:
  assumes "createIgnore e config output = Inr ig"
    and "getIncludedFiles e (cwd e) config ig = Inr files"
    and "formatIncludedFiles e files (log_info ''Files to be included:'' w) = (Inr included, w1)"
    and "promptUser e ''Do you want to proceed with the context generation? (y/n): ''"
    and "generateCodeContext fuel e (cwd e) config ig
           (log_info ''Generating code context...'' (log_info (newline @ included) w1))
         = (Some (Inr doc), w4)"
    and "writeFileSync e output doc = Some err"
  shows "fst (writeToFile e doc output w4) = Inr ()
         \<and> logged (snd (writeToFile e doc output w4))
             = logged w4 @ [LogError (''Error writing to file '' @ output @ '':'') err]
         \<and> fst (run fuel e config output w) = Some Completed"
  using assms by (simp add: run_def main_def writeToFile_def log_error_def Let_def)

theorem write_failure_is_logged_and_swallowed_witness:
  "fst (writeToFile readonly_env readonly_document ''codewise-output.md''
          (log_info ''Generating code context...''
             (log_info (newline @ connector True @ ''a.txt'' @ newline)
                (log_info ''Files to be included:'' empty_world))))
     = Inr ()
   \<and> logged (snd (writeToFile readonly_env readonly_document ''codewise-output.md''
                    (log_info ''Generating code context...''
                       (log_info (newline @ connector True @ ''a.txt'' @ newline)
                          (log_info ''Files to be included:'' empty_world)))))
     = [LogInfo ''Files to be included:'',
        LogInfo (newline @ connector True @ ''a.txt'' @ newline),
        LogInfo ''Generating code context...'',
        LogError ''Error writing to file codewise-output.md:'' (EACCES ''codewise-output.md'')]
   \<and> fst (run (Suc 0) readonly_env DEFAULT_CONFIG ''codewise-output.md'' empty_world)
     = Some Completed"
proof -
  let ?ig = "Ignore (exclude_patterns DEFAULT_CONFIG @ [''codewise-output.md''])"
  let ?w1 = "log_info ''Files to be included:'' empty_world"
  let ?w3 = "log_info ''Generating code context...''
               (log_info (newline @ connector True @ ''a.txt'' @ newline) ?w1)"
  have c: "cwd readonly_env = ''/proj''"
    by (simp add: readonly_env_def empty_env_def)
  have h1: "createIgnore readonly_env DEFAULT_CONFIG ''codewise-output.md'' = Inr ?ig"
    by (simp add: createIgnore_def readonly_env_def empty_env_def)
  have h2: "getIncludedFiles readonly_env (cwd readonly_env) DEFAULT_CONFIG ?ig = Inr [''a.txt'']"
    by (simp add: c readonly_selection)
  have h3: "formatIncludedFiles readonly_env [''a.txt''] ?w1
              = (Inr (connector True @ ''a.txt'' @ newline), ?w1)"
    by (rule readonly_inclusion_tree) (simp add: walks_log_info empty_world_def)
  have h4: "promptUser readonly_env
              ''Do you want to proceed with the context generation? (y/n): ''"
    by (simp add: readonly_env_def empty_env_def)
  have "walks ?w3 = []"
    by (simp add: walks_log_info empty_world_def)
  then have h5: "generateCodeContext (Suc 0) readonly_env (cwd readonly_env) DEFAULT_CONFIG
                  ?ig ?w3
                = (Some (Inr readonly_document), ?w3)"
    by (simp only: c readonly_context)
  have h6: "writeFileSync readonly_env ''codewise-output.md'' readonly_document
              = Some (EACCES ''codewise-output.md'')"
    by (simp add: readonly_env_def empty_env_def)
  have before: "logged ?w3
                  = [LogInfo ''Files to be included:'',
                     LogInfo (newline @ connector True @ ''a.txt'' @ newline),
                     LogInfo ''Generating code context...'']"
    by (simp add: log_info_def empty_world_def)
  from write_failure_is_logged_and_swallowed[OF h1 h2 h3 h4 h5 h6] before
  show ?thesis by simp
qed

section \<open>The per-file blocks\<close>

lemma getFileContent_read:
  "readFileSync e filePath = Inr content \<Longrightarrow>
   getFileContent e filePath config w
     = (Inr (if outputFormat config = XML
             then xml_block (path_relative e (cwd e) filePath) content
             else markdown_block (path_relative e (cwd e) filePath) content), w)"
  by (simp add: getFileContent_def file_block_def)

text \<open>
  C5 fails on a file whose text holds \<open>]]>\<close>. The comparison \<open>a[b[0]]>0\<close> in \<open>src/a.ts\<close> is
  copied into the block as it is, so the first \<open>]]>\<close> after the start of the CDATA section
  is the one of the file: the section holds the text up to \<open>if (a[b[0\<close>, and the rest of the
  file follows it outside the section.
\<close>

theorem cdata_section_ends_in_content:
  "getFileContent snippets_env ''/proj/src/a.ts'' (DEFAULT_CONFIG\<lparr>outputFormat := XML\<rparr>)
       empty_world
     = (Inr (''<file path=\"src/a.ts\">'' @ newline @ ''<![CDATA['' @ newline
             @ ''if (a[b[0]]>0) run();'' @ newline @ '']]>'' @ newline @ ''</file>'' @ newline
             @ newline),
        empty_world)
   \<and> split_at_first ''<![CDATA[''
         (''<file path=\"src/a.ts\">'' @ newline @ ''<![CDATA['' @ newline
          @ ''if (a[b[0]]>0) run();'' @ newline @ '']]>'' @ newline @ ''</file>'' @ newline
          @ newline)
       = Some (''<file path=\"src/a.ts\">'' @ newline,
               newline @ ''if (a[b[0]]>0) run();'' @ newline @ '']]>'' @ newline @ ''</file>''
               @ newline @ newline)
   \<and> split_at_first '']]>''
         (newline @ ''if (a[b[0]]>0) run();'' @ newline @ '']]>'' @ newline @ ''</file>''
          @ newline @ newline)
       = Some (newline @ ''if (a[b[0'',
               ''0) run();'' @ newline @ '']]>'' @ newline @ ''</file>'' @ newline @ newline)"
proof -
  have rd: "readFileSync snippets_env ''/proj/src/a.ts'' = Inr ''if (a[b[0]]>0) run();''"
    by (simp add: snippets_env_def empty_env_def)
  have rel: "path_relative snippets_env (cwd snippets_env) ''/proj/src/a.ts'' = ''src/a.ts''"
    by (simp add: snippets_env_def empty_env_def posix_relative_def)
  have g: "getFileContent snippets_env ''/proj/src/a.ts'' (DEFAULT_CONFIG\<lparr>outputFormat := XML\<rparr>)
             empty_world
           = (Inr (''<file path=\"src/a.ts\">'' @ newline @ ''<![CDATA['' @ newline
                   @ ''if (a[b[0]]>0) run();'' @ newline @ '']]>'' @ newline @ ''</file>''
                   @ newline @ newline),
              empty_world)"
    by (simp add: getFileContent_read[OF rd] rel xml_block_def)
  have s1: "split_at_first ''<![CDATA[''
         (''<file path=\"src/a.ts\">'' @ newline @ ''<![CDATA['' @ newline
          @ ''if (a[b[0]]>0) run();'' @ newline @ '']]>'' @ newline @ ''</file>'' @ newline
          @ newline)
       = Some (''<file path=\"src/a.ts\">'' @ newline,
               newline @ ''if (a[b[0]]>0) run();'' @ newline @ '']]>'' @ newline @ ''</file>''
               @ newline @ newline)"
    by (simp add: newline_def)
  have s2: "split_at_first '']]>''
         (newline @ ''if (a[b[0]]>0) run();'' @ newline @ '']]>'' @ newline @ ''</file>''
          @ newline @ newline)
       = Some (newline @ ''if (a[b[0'',
               ''0) run();'' @ newline @ '']]>'' @ newline @ ''</file>'' @ newline @ newline)"
    by (simp add: newline_def)
  from g s1 s2 show ?thesis by blast
qed

text \<open>
  C6 fails on a file that holds a fence line of its own. The README with a code example
  is copied between the two fences of three backticks as it is, so the third line of the
  block is a line of three backticks: the fenced block ends there, after the line
  \<open>Usage:\<close>, and the rest of the file follows it outside the block.
\<close>

theorem fenced_block_ends_in_content:
  "getFileContent snippets_env ''/proj/README.md'' DEFAULT_CONFIG empty_world
     = (Inr (''```README.md'' @ newline
             @ ''Usage:'' @ newline @ ''```'' @ newline @ ''codewise'' @ newline @ ''```''
             @ newline @ newline @ ''```'' @ newline @ newline),
        empty_world)
   \<and> split_on (CHR 0x0A)
         (''```README.md'' @ newline
          @ ''Usage:'' @ newline @ ''```'' @ newline @ ''codewise'' @ newline @ ''```''
          @ newline @ newline @ ''```'' @ newline @ newline)
       = [''```README.md'', ''Usage:'', ''```'', ''codewise'', ''```'', [], ''```'', [], []]"
proof -
  have rd: "readFileSync snippets_env ''/proj/README.md''
              = Inr (''Usage:'' @ newline @ ''```'' @ newline @ ''codewise'' @ newline
                     @ ''```'' @ newline)"
    by (simp add: snippets_env_def empty_env_def)
  have rel: "path_relative snippets_env (cwd snippets_env) ''/proj/README.md'' = ''README.md''"
    by (simp add: snippets_env_def empty_env_def posix_relative_def)
  have g: "getFileContent snippets_env ''/proj/README.md'' DEFAULT_CONFIG empty_world
     = (Inr (''```README.md'' @ newline
             @ ''Usage:'' @ newline @ ''```'' @ newline @ ''codewise'' @ newline @ ''```''
             @ newline @ newline @ ''```'' @ newline @ newline),
        empty_world)"
    by (simp add: getFileContent_read[OF rd] rel markdown_block_def)
       (simp add: DEFAULT_CONFIG_def)
  have l: "split_on (CHR 0x0A)
         (''```README.md'' @ newline
          @ ''Usage:'' @ newline @ ''```'' @ newline @ ''codewise'' @ newline @ ''```''
          @ newline @ newline @ ''```'' @ newline @ newline)
       = [''```README.md'', ''Usage:'', ''```'', ''codewise'', ''```'', [], ''```'', [], []]"
    by (simp add: newline_def)
  from g l show ?thesis by blast
qed

section \<open>The inclusion tree\<close>

subsection \<open>An object after an assignment\<close>

lemma map_fst_update:
  "map (fst \<circ> (\<lambda>(k', v'). if k' = k then (k', v) else (k', v'))) node = map fst node"
  by (induction node) auto

lemma map_of_update_other:
  "x \<noteq> k \<Longrightarrow>
   map_of (map (\<lambda>(k', v'). if k' = k then (k', v) else (k', v')) node) x = map_of node x"
  by (induction node) auto

lemma map_of_update_same:
  "k \<in> fst ` set node \<Longrightarrow>
   map_of (map (\<lambda>(k', v'). if k' = k then (k', v) else (k', v')) node) k = Some v"
  by (induction node) auto

lemma map_of_update:
  "k \<in> fst ` set node \<Longrightarrow>
   map_of (map (\<lambda>(k', v'). if k' = k then (k', v) else (k', v')) node) x
     = (if x = k then Some v else map_of node x)"
  by (simp add: map_of_update_other map_of_update_same)

lemma map_of_insert_index:
  "k \<notin> fst ` set node \<Longrightarrow>
   map_of (insert_index k v node) x = (if x = k then Some v else map_of node x)"
  by (induction node) auto

lemma not_key: "k \<notin> fst ` set node \<Longrightarrow> map_of node k = None"
  by (simp add: map_of_eq_None_iff)

lemma map_of_snoc:
  "k \<notin> fst ` set node \<Longrightarrow>
   ([k \<mapsto> v] ++ map_of node) x = (if x = k then Some v else map_of node x)"
  by (cases "x = k") (simp_all add: map_add_def not_key split: option.splits)

lemma map_of_set_property:
  "map_of (set_property k v node) x = (if x = k then Some v else map_of node x)"
  by (simp add: set_property_def map_of_update map_of_insert_index map_of_snoc)

lemma key_of_map_of: "map_of node k = Some v \<Longrightarrow> k \<in> fst ` set node"
  by (induction node) (auto split: if_splits)

lemma keys_set_property:
  "\<not> is_array_index k \<Longrightarrow>
   map fst (set_property k v node)
     = (if k \<in> fst ` set node then map fst node else map fst node @ [k])"
  by (simp add: set_property_def map_fst_update)

lemma child_of_set_property:
  "child_of (set_property k v node) x
     = (if x = k then (case v of Null \<Rightarrow> [] | Object child \<Rightarrow> child) else child_of node x)"
  by (simp add: child_of_def map_of_set_property split: tree_value.splits)

subsection \<open>The trie after one path of ordinary parts\<close>

lemma get_property_ordinary:
  "ordinary_part inherited k \<Longrightarrow>
   get_property inherited node k = (case map_of node k of None \<Rightarrow> Undefined | Some v \<Rightarrow> Own v)"
  by (simp add: get_property_def ordinary_part_def split: option.splits)

lemma insert_parts_stays:
  "list_all (ordinary_part inherited) parts \<Longrightarrow> snd (insert_parts inherited parts node) = None"
proof (induction parts arbitrary: node)
  case Nil
  then show ?case by simp
next
  case (Cons k r)
  then have ord: "ordinary_part inherited k"
    by simp
  show ?case
  proof (cases r)
    case Nil
    with ord show ?thesis
      by (simp add: get_property_ordinary split: option.splits tree_value.splits)
  next
    case r: (Cons k' r')
    from Cons have "snd (insert_parts inherited (k' # r') child) = None" for child
      by (simp add: r)
    with ord show ?thesis
      by (simp add: r get_property_ordinary case_prod_beta
          split: option.splits tree_value.splits)
  qed
qed

lemma keys_insert_parts:
  assumes "list_all (ordinary_part inherited) (k # r)"
  shows "map fst (fst (insert_parts inherited (k # r) node))
           = (if k \<in> fst ` set node then map fst node else map fst node @ [k])"
proof -
  from assms have ord: "ordinary_part inherited k" and idx: "\<not> is_array_index k"
    by (simp_all add: ordinary_part_def)
  show ?thesis
  proof (cases "map_of node k")
    case None
    then have "k \<notin> fst ` set node"
      by (simp add: map_of_eq_None_iff)
    with None ord idx show ?thesis
      by (cases r) (simp_all add: get_property_ordinary keys_set_property case_prod_beta)
  next
    case (Some v)
    then have "k \<in> fst ` set node"
      by (rule key_of_map_of)
    with Some ord idx show ?thesis
      by (cases r; cases v)
         (simp_all add: get_property_ordinary keys_set_property case_prod_beta)
  qed
qed

lemma child_of_insert_parts:
  assumes "list_all (ordinary_part inherited) (k # r)"
  shows "child_of (fst (insert_parts inherited (k # r) node)) x
           = (if x = k \<and> r \<noteq> [] then fst (insert_parts inherited r (child_of node k))
              else child_of node x)"
proof -
  from assms have ord: "ordinary_part inherited k"
    by simp
  show ?thesis
  proof (cases "map_of node k")
    case None
    then have none: "child_of node k = []"
      by (simp add: child_of_def)
    from None ord none show ?thesis
      by (cases r)
         (simp_all add: get_property_ordinary child_of_set_property case_prod_beta)
  next
    case (Some v)
    show ?thesis
    proof (cases v)
      case Null
      with Some have none: "child_of node k = []"
        by (simp add: child_of_def)
      from Some Null ord none show ?thesis
        by (cases r)
           (simp_all add: get_property_ordinary child_of_set_property case_prod_beta)
    next
      case (Object child)
      with Some have child: "child_of node k = child"
        by (simp add: child_of_def)
      from Some Object ord child show ?thesis
        by (cases r)
           (simp_all add: get_property_ordinary child_of_set_property case_prod_beta)
    qed
  qed
qed

subsection \<open>The trie after all paths\<close>

lemma ordinary_kids: "ordinary_paths inherited paths \<Longrightarrow> ordinary_paths inherited (kids paths k)"
  by (induction paths k rule: kids.induct) (simp_all add: ordinary_paths_def)

lemma set_first_occurrences: "set (first_occurrences xs) = set xs"
  by (induction xs) auto

lemma distinct_first_occurrences: "distinct (first_occurrences xs)"
  by (induction xs) (simp_all add: set_first_occurrences)

lemma keys_after_paths:
  "ordinary_paths inherited paths \<Longrightarrow>
   map fst (foldl (\<lambda>n p. fst (insert_parts inherited p n)) node paths)
     = map fst node
       @ filter (\<lambda>y. y \<notin> fst ` set node) (first_occurrences (heads paths))"
proof (induction paths arbitrary: node)
  case Nil
  then show ?case by simp
next
  case (Cons p paths)
  then have rest: "ordinary_paths inherited paths"
    by (simp add: ordinary_paths_def)
  show ?case
  proof (cases p)
    case Nil
    with Cons.IH[OF rest] show ?thesis by simp
  next
    case p: (Cons k r)
    from Cons.prems p have ord: "list_all (ordinary_part inherited) (k # r)"
      by (simp add: ordinary_paths_def)
    let ?node = "fst (insert_parts inherited (k # r) node)"
    have keys: "map fst ?node = (if k \<in> fst ` set node then map fst node else map fst node @ [k])"
      by (rule keys_insert_parts[OF ord])
    have members: "fst ` set ?node = insert k (fst ` set node)"
      using arg_cong[OF keys, of set] by (auto split: if_splits)
    show ?thesis
    proof (cases "k \<in> fst ` set node")
      case True
      then have "filter (\<lambda>y. y \<notin> fst ` set node)
                   (filter (\<lambda>y. y \<noteq> k) (first_occurrences (heads paths)))
                 = filter (\<lambda>y. y \<notin> fst ` set node) (first_occurrences (heads paths))"
        by (auto simp: filter_filter intro: filter_cong)
      with True p keys members Cons.IH[OF rest, of ?node] show ?thesis
        by simp
    next
      case False
      have "filter (\<lambda>y. y \<notin> fst ` set node)
              (filter (\<lambda>y. y \<noteq> k) (first_occurrences (heads paths)))
            = filter (\<lambda>y. y \<noteq> k \<and> y \<notin> fst ` set node) (first_occurrences (heads paths))"
        by (auto simp: filter_filter intro: filter_cong)
      with False p keys members Cons.IH[OF rest, of ?node] show ?thesis
        by simp
    qed
  qed
qed

lemma child_of_after_paths:
  "ordinary_paths inherited paths \<Longrightarrow>
   child_of (foldl (\<lambda>n p. fst (insert_parts inherited p n)) node paths) k
     = foldl (\<lambda>n p. fst (insert_parts inherited p n)) (child_of node k) (kids paths k)"
proof (induction paths arbitrary: node)
  case Nil
  then show ?case by simp
next
  case (Cons p paths)
  then have rest: "ordinary_paths inherited paths"
    by (simp add: ordinary_paths_def)
  show ?case
  proof (cases p)
    case Nil
    with Cons.IH[OF rest] show ?thesis by simp
  next
    case p: (Cons k' r)
    from Cons.prems p have ord: "list_all (ordinary_part inherited) (k' # r)"
      by (simp add: ordinary_paths_def)
    from p Cons.IH[OF rest, of "fst (insert_parts inherited (k' # r) node)"]
      child_of_insert_parts[OF ord, of node k]
    show ?thesis by simp
  qed
qed

lemma insert_files_ordinary:
  "ordinary_paths (inherited_property e (walks w)) (map (split_on (path_sep e)) files) \<Longrightarrow>
   insert_files e files node w
     = (Inr (foldl (\<lambda>n p. fst (insert_parts (inherited_property e (walks w)) p n)) node
               (map (split_on (path_sep e)) files)), w)"
proof (induction files arbitrary: node)
  case Nil
  then show ?case by simp
next
  case (Cons f files)
  then have here: "list_all (ordinary_part (inherited_property e (walks w)))
                     (split_on (path_sep e) f)"
    and rest: "ordinary_paths (inherited_property e (walks w))
                 (map (split_on (path_sep e)) files)"
    by (simp_all add: ordinary_paths_def)
  from insert_parts_stays[OF here, of node] Cons.IH[OF rest]
  show ?case
    by (simp add: case_prod_beta)
qed

subsection \<open>The drawing of an object with distinct keys\<close>

lemma render_entries_distinct:
  "n = i + length entries \<Longrightarrow> distinct (map fst entries) \<Longrightarrow>
   render_entries n i entries pre
     = concat (map (\<lambda>(k, v).
                      pre @ connector (k = last (map fst entries)) @ k @ newline
                      @ (case v of
                           Null \<Rightarrow> []
                         | Object child \<Rightarrow>
                             render_entries (length child) 0 child
                               (pre @ continuation (k = last (map fst entries)))))
                 entries)"
proof (induction entries arbitrary: i)
  case Nil
  then show ?case by simp
next
  case (Cons entry rest)
  obtain k v where entry: "entry = (k, v)"
    by (cases entry)
  from Cons.prems entry have fresh: "k \<notin> set (map fst rest)" and dist: "distinct (map fst rest)"
    and n: "n = Suc i + length rest"
    by simp_all
  show ?case
  proof (cases "rest = []")
    case True
    with entry n show ?thesis
      by (cases v) simp_all
  next
    case False
    then have "last (map fst rest) \<in> set (map fst rest)"
      by (intro last_in_set) simp
    with fresh have other: "k \<noteq> last (map fst rest)"
      by blast
    from False n have inner: "i \<noteq> n - 1"
      by (cases rest) simp_all
    from False have same: "last (map fst (entry # rest)) = last (map fst rest)"
      by simp
    from Cons.IH[OF n dist] False other inner entry show ?thesis
      unfolding same by (cases v) simp_all
  qed
qed

lemma renderTree_distinct:
  assumes "distinct (map fst node)"
  shows "renderTree node pre
           = concat (map (\<lambda>k. pre @ connector (k = last (map fst node)) @ k @ newline
                              @ renderTree (child_of node k)
                                  (pre @ continuation (k = last (map fst node))))
                       (map fst node))"
proof -
  have "(case v of
           Null \<Rightarrow> []
         | Object child \<Rightarrow> render_entries (length child) 0 child q)
        = renderTree (child_of node k) q"
    if "(k, v) \<in> set node" for k v q
  proof -
    from assms that have "map_of node k = Some v"
      by (rule map_of_is_SomeI)
    then show ?thesis
      by (cases v) (simp_all add: child_of_def renderTree_def)
  qed
  then have "map (\<lambda>(k, v).
                    pre @ connector (k = last (map fst node)) @ k @ newline
                    @ (case v of
                         Null \<Rightarrow> []
                       | Object child \<Rightarrow>
                           render_entries (length child) 0 child
                             (pre @ continuation (k = last (map fst node)))))
               node
             = map (\<lambda>k. pre @ connector (k = last (map fst node)) @ k @ newline
                         @ renderTree (child_of node k)
                             (pre @ continuation (k = last (map fst node))))
                 (map fst node)"
    by (auto simp: o_def)
  with render_entries_distinct[of "length node" 0 node pre, OF _ assms]
  show ?thesis
    by (simp add: renderTree_def)
qed

subsection \<open>The trie is drawn as the tree of the specification\<close>

lemma renderTree_after_paths:
  "ordinary_paths inherited paths \<Longrightarrow>
   renderTree (foldl (\<lambda>n p. fst (insert_parts inherited p n)) [] paths) pre
     = expected_tree paths pre"
proof (induction paths pre rule: expected_tree.induct)
  case (1 paths pre)
  let ?node = "foldl (\<lambda>n p. fst (insert_parts inherited p n)) [] paths"
  have keys: "map fst ?node = sibling_names paths"
    using keys_after_paths[OF "1.prems", of "[]"] by (simp add: sibling_names_def)
  then have dist: "distinct (map fst ?node)"
    by (simp add: sibling_names_def distinct_first_occurrences)
  have below: "renderTree (child_of ?node name) q = expected_tree (kids paths name) q"
    if "name \<in> set (sibling_names paths)" and "q = pre @ continuation (name = last (sibling_names paths))"
    for name q
    using "1.IH"[OF that(1) ordinary_kids[OF "1.prems"]] that(2)
      child_of_after_paths[OF "1.prems", of "[]" name]
    by (simp add: child_of_def)
  show ?case
    unfolding renderTree_distinct[OF dist] keys expected_tree.simps[of paths pre]
    by (rule arg_cong[where f = concat], rule map_cong) (simp_all add: below)
qed

text \<open>
  C9, as stated, fails: \<open>a/y\<close> comes before \<open>b/z\<close> in the list and the two paths part at
  the top level, but \<open>b/z\<close> is drawn before \<open>a/y\<close>, below the \<open>b\<close> that \<open>b/x\<close> has made the
  first sibling.
\<close>

theorem later_file_is_drawn_first:
  "formatIncludedFiles empty_env [''b/x'', ''a/y'', ''b/z''] empty_world
     = (Inr (connector False @ ''b'' @ newline
             @ continuation False @ connector False @ ''x'' @ newline
             @ continuation False @ connector True @ ''z'' @ newline
             @ connector True @ ''a'' @ newline
             @ continuation True @ connector True @ ''y'' @ newline),
        empty_world)"
  by (simp add: formatIncludedFiles_def renderTree_def get_property_def set_property_def
      node_inherited_def inherited_names_def is_array_index_def is_digit_def empty_env_def empty_world_def)

text \<open>
  C9, amended. For every list of included files whose path parts are ordinary names
  (no array index, no name of an inherited property), the inclusion tree is the tree of
  the specification: at every level the siblings are the names that the list puts below
  that parent, each once and in the order in which the list first brings them, and each
  is followed by the drawing of what lies below it. So of two files whose paths part at
  some level, the one whose name at that level comes first among the names below the
  common parent is drawn before the other.
\<close>

theorem formatIncludedFiles_draws_expected_tree:
  assumes "ordinary_paths (inherited_property e (walks w)) (map (split_on (path_sep e)) files)"
  shows "formatIncludedFiles e files w
           = (Inr (expected_tree (map (split_on (path_sep e)) files) []), w)"
  using assms
  by (simp add: formatIncludedFiles_def insert_files_ordinary renderTree_after_paths)

theorem formatIncludedFiles_draws_expected_tree_witness:
  "ordinary_paths (inherited_property empty_env (walks empty_world))
     (map (split_on (path_sep empty_env)) [''src/index.ts'', ''README.md'', ''src/cli.ts''])
   \<and> formatIncludedFiles empty_env [''src/index.ts'', ''README.md'', ''src/cli.ts''] empty_world
     = (Inr (connector False @ ''src'' @ newline
             @ continuation False @ connector False @ ''index.ts'' @ newline
             @ continuation False @ connector True @ ''cli.ts'' @ newline
             @ connector True @ ''README.md'' @ newline),
        empty_world)"
proof -
  have paths: "map (split_on (path_sep empty_env)) [''src/index.ts'', ''README.md'', ''src/cli.ts'']
                 = [[''src'', ''index.ts''], [''README.md''], [''src'', ''cli.ts'']]"
    by (simp add: empty_env_def)
  have ord: "ordinary_paths (inherited_property empty_env (walks empty_world))
               (map (split_on (path_sep empty_env))
                  [''src/index.ts'', ''README.md'', ''src/cli.ts''])"
    unfolding paths
    by (simp add: ordinary_paths_def ordinary_part_def empty_env_def empty_world_def
        node_inherited_def inherited_names_def is_array_index_def is_digit_def)
  have leaf: "expected_tree [] pre = []" for pre
    by (subst expected_tree.simps) (simp add: sibling_names_def)
  have below: "expected_tree [[''index.ts''], [''cli.ts'']] pre
                 = pre @ connector False @ ''index.ts'' @ newline
                   @ pre @ connector True @ ''cli.ts'' @ newline" for pre
    by (subst expected_tree.simps) (simp add: sibling_names_def leaf)
  have top: "expected_tree [[''src'', ''index.ts''], [''README.md''], [''src'', ''cli.ts'']] []
               = connector False @ ''src'' @ newline
                 @ continuation False @ connector False @ ''index.ts'' @ newline
                 @ continuation False @ connector True @ ''cli.ts'' @ newline
                 @ connector True @ ''README.md'' @ newline"
    by (subst expected_tree.simps) (simp add: sibling_names_def leaf below)
  from formatIncludedFiles_draws_expected_tree[OF ord] ord show ?thesis
    by (simp only: paths top simp_thms)
qed

text \<open>A name that is an array index is enumerated before the names created earlier.\<close>

lemma array_index_is_drawn_first:
  "formatIncludedFiles empty_env [''b'', ''1''] empty_world
     = (Inr (connector False @ ''1'' @ newline @ connector True @ ''b'' @ newline), empty_world)"
proof -
  have idx: "is_array_index ''1''" "\<not> is_array_index ''b''"
    by (simp_all add: is_array_index_def is_digit_def index_value_def)
  show ?thesis
    by (simp add: formatIncludedFiles_def renderTree_def get_property_def set_property_def
        node_inherited_def inherited_names_def idx empty_env_def empty_world_def)
qed

subsection \<open>A file that is also a directory\<close>

text \<open>
  C10 fails for a path named like a property that every object inherits. The read
  \<open>currentNode['constructor']\<close> of line 111 gives the inherited function, which is truthy,
  so no leaf is created for the selected file \<open>constructor\<close> and nothing is drawn for it.
  The later path \<open>constructor/x\<close> then follows the function out of the tree at line 118
  and writes \<open>x\<close> onto it: the tree stays empty, and the drawing shows neither a directory
  \<open>constructor\<close> with the child \<open>x\<close> nor a file.
\<close>

theorem constructor_is_not_drawn:
  "get_property (inherited_property empty_env (walks empty_world)) [] ''constructor'' = Inherited
   \<and> formatIncludedFiles empty_env [''constructor''] empty_world = (Inr [], empty_world)
   \<and> insert_parts (inherited_property empty_env (walks empty_world)) [''constructor'', ''x''] []
       = ([], Some [''constructor'', ''x''])
   \<and> formatIncludedFiles empty_env [''constructor'', ''constructor/x''] empty_world
       = (Inr [], empty_world\<lparr>walks := [[''constructor'', ''x'']]\<rparr>)"
  by (simp add: formatIncludedFiles_def renderTree_def get_property_def node_inherited_def inherited_names_def
      empty_env_def empty_world_def)

text \<open>A walk through \<open>__proto__\<close> creates a property that every object inherits, and a
  later file of that name is not drawn.\<close>

lemma proto_walk_hides_later_file:
  "formatIncludedFiles empty_env [''__proto__/a/b'', ''a''] empty_world
     = (Inr [], empty_world\<lparr>walks := [[''__proto__'', ''a'', ''b'']]\<rparr>)"
  by (simp add: formatIncludedFiles_def renderTree_def get_property_def node_inherited_def
      inherited_names_def empty_env_def empty_world_def)

end
